theory Spec2Isabelle
  imports Complex_Main "HOL-Library.Word" "HOL-Library.Char_ord" "HOL-Library.List_Lexorder"
begin

section \<open>Scoring: values, definitions and scores\<close>

text \<open>
  The values that flow out of the expression evaluator are Go \<^verbatim>\<open>interface{}\<close> values.
  The scoring code distinguishes \<^verbatim>\<open>int64\<close>, \<^verbatim>\<open>float64\<close> and \<^verbatim>\<open>bool\<close>; every
  other dynamic type (and \<^verbatim>\<open>nil\<close>) reaches the \<^verbatim>\<open>default\<close> branches.

  A \<^verbatim>\<open>float64\<close> is modelled by the number it denotes: a finite float is a rational,
  and the three special values are kept apart. Not every rational is a float, so a theorem
  about all rationals covers all finite floats.
\<close>

datatype float64 = Finite rat | PosInf | NegInf | NaN

datatype score_value =
    Int64V "64 word"
  | Float64V float64
  | BoolV bool
  | NilV
  | OtherV string

text \<open>
  What the language leaves open about floating point is a parameter: the result of
  converting a float that no \<^verbatim>\<open>int32\<close> represents (implementation-dependent in Go), and
  the rounding of an exact number to \<^verbatim>\<open>float32\<close> precision.
\<close>

record float_impl =
  int32_unrepresentable :: "float64 \<Rightarrow> 32 word"
  round_float32 :: "rat \<Rightarrow> float64"

text \<open>Go discards the fraction when it converts a float to an integer.\<close>

definition truncate_rat :: "rat \<Rightarrow> int" where
  "truncate_rat q = (if 0 \<le> q then \<lfloor>q\<rfloor> else \<lceil>q\<rceil>)"

definition int32_of_float64 :: "float_impl \<Rightarrow> float64 \<Rightarrow> 32 word" where
  "int32_of_float64 F v =
     (case v of
        Finite q \<Rightarrow>
          (if - (2 ^ 31) \<le> truncate_rat q \<and> truncate_rat q \<le> 2 ^ 31 - 1
           then word_of_int (truncate_rat q)
           else int32_unrepresentable F v)
      | _ \<Rightarrow> int32_unrepresentable F v)"

text \<open>Converting between integer types keeps the low bits.\<close>

definition int32_of_int64 :: "64 word \<Rightarrow> 32 word" where
  "int32_of_int64 v = ucast v"

definition float32_of_float64 :: "float_impl \<Rightarrow> float64 \<Rightarrow> float64" where
  "float32_of_float64 F v = (case v of Finite q \<Rightarrow> round_float32 F q | _ \<Rightarrow> v)"

definition float32_of_int64 :: "float_impl \<Rightarrow> 64 word \<Rightarrow> float64" where
  "float32_of_int64 F v = round_float32 F (of_int (sint v))"

definition float32_of_int32 :: "float_impl \<Rightarrow> 32 word \<Rightarrow> float64" where
  "float32_of_int32 F v = round_float32 F (of_int (sint v))"

fun float_lt :: "float64 \<Rightarrow> float64 \<Rightarrow> bool" where
  "float_lt NaN _ = False"
| "float_lt _ NaN = False"
| "float_lt (Finite a) (Finite b) = (a < b)"
| "float_lt NegInf NegInf = False"
| "float_lt NegInf _ = True"
| "float_lt _ NegInf = False"
| "float_lt PosInf _ = False"
| "float_lt _ PosInf = True"

definition float_le :: "float64 \<Rightarrow> float64 \<Rightarrow> bool" where
  "float_le a b = (float_lt a b \<or> (a \<noteq> NaN \<and> a = b))"

datatype Severity = SEVERITY_UNSPECIFIED | Severity_OK | Severity_WARNING | Severity_ALERT

record NumberRange =
  Range_Min :: "32 word"
  Range_Max :: "32 word"

record NumberThreshold =
  NumberThreshold_Severity :: Severity
  NumberThreshold_Range :: NumberRange

record BooleanThreshold =
  BooleanThreshold_Severity :: Severity
  BooleanThreshold_Value :: bool

record IntegerType =
  Integer_MinValue :: "32 word"
  Integer_MaxValue :: "32 word"
  Integer_Thresholds :: "NumberThreshold list"

record PercentType =
  Percent_Thresholds :: "NumberThreshold list"

record BooleanType =
  DisplayTrue :: string
  DisplayFalse :: string
  Boolean_Thresholds :: "BooleanThreshold list"

datatype definition_type =
    NoType
  | Integer IntegerType
  | Percent PercentType
  | Boolean BooleanType

record ScoreFormula =
  Artifact_Pattern :: string
  ScoreExpression :: string
  ReferenceId :: string

record RollUpFormula =
  ScoreFormulas :: "ScoreFormula list"
  RollupExpression :: string

datatype definition_formula =
    NoFormula
  | ScoreDefinition_ScoreFormula ScoreFormula
  | ScoreDefinition_RollupFormula RollUpFormula

record ScoreDefinition =
  Id :: string
  DisplayName :: string
  Description :: string
  Uri :: string
  UriDisplayName :: string
  Type :: definition_type
  Formula :: definition_formula

record IntegerValue =
  IntegerValue_Value :: "32 word"
  IntegerValue_MinValue :: "32 word"
  IntegerValue_MaxValue :: "32 word"

record BooleanValue =
  BooleanValue_Value :: bool
  DisplayValue :: string

datatype score_oneof =
    NoScoreValue
  | Score_IntegerValue IntegerValue
  | Score_PercentValue float64
  | Score_BooleanValue BooleanValue

record Score =
  Score_Id :: string
  Score_Kind :: string
  Score_DisplayName :: string
  Score_Description :: string
  Score_Uri :: string
  Score_UriDisplayName :: string
  Score_DefinitionName :: string
  Score_Severity :: Severity
  Score_Value :: score_oneof

section \<open>Errors\<close>

text \<open>
  The Go code builds its errors with \<^verbatim>\<open>fmt.Errorf\<close>; each call site is a constructor
  here, carrying what the message is built from. \<open>StatusError\<close> is an error of the
  registry client with its gRPC status code; \<open>ExternalError\<close> is any other error of a
  collaborator (name parsing, decoding, expression evaluation, encoding).
\<close>

datatype code = Code_OK | NotFound | Unavailable | Unknown | OtherCode nat

datatype error =
    StatusError code string
  | ExternalError string
  | InvalidArtifactPattern string error
  | FailedToFetch string error
  | InvalidFormula
  | InvalidFormulaPattern string error
  | MissingScoreExpression ScoreFormula
  | MissingScoreFormulas
  | MissingRollupExpression
  | ErrorProcessingScoreFormulas error
  | MissingReferenceId ScoreFormula
  | InvalidReferenceId ScoreFormula
  | FailedTypecheckNumber score_value
  | FailedTypecheckBool
  | FailedToSave string error

text \<open>\<^verbatim>\<open>status.Code\<close>: the code of a status error, \<^verbatim>\<open>Unknown\<close> for any other error.\<close>

fun status_Code :: "error \<Rightarrow> code" where
  "status_Code (StatusError c m) = c"
| "status_Code e = Unknown"

section \<open>processScoreType\<close>

text \<open>
  The three threshold loops of \<^verbatim>\<open>processScoreType\<close>. Each starts from the severity the
  score has so far. The integer and the percent loop leave at the first threshold whose
  range holds the value; the boolean loop has no \<^verbatim>\<open>break\<close> and runs to the end of the
  list.
\<close>

fun integer_thresholds :: "32 word \<Rightarrow> NumberThreshold list \<Rightarrow> Severity \<Rightarrow> Severity" where
  "integer_thresholds v [] sev = sev"
| "integer_thresholds v (t # ts) sev =
     (if sint (Range_Min (NumberThreshold_Range t)) \<le> sint v
         \<and> sint v \<le> sint (Range_Max (NumberThreshold_Range t))
      then NumberThreshold_Severity t
      else integer_thresholds v ts sev)"

fun percent_thresholds ::
  "float_impl \<Rightarrow> float64 \<Rightarrow> NumberThreshold list \<Rightarrow> Severity \<Rightarrow> Severity" where
  "percent_thresholds F v [] sev = sev"
| "percent_thresholds F v (t # ts) sev =
     (if float_le (float32_of_int32 F (Range_Min (NumberThreshold_Range t))) v
         \<and> float_le v (float32_of_int32 F (Range_Max (NumberThreshold_Range t)))
      then NumberThreshold_Severity t
      else percent_thresholds F v ts sev)"

fun boolean_thresholds :: "bool \<Rightarrow> BooleanThreshold list \<Rightarrow> Severity \<Rightarrow> Severity" where
  "boolean_thresholds b [] sev = sev"
| "boolean_thresholds b (t # ts) sev =
     boolean_thresholds b ts
       (if BooleanThreshold_Value t = b then BooleanThreshold_Severity t else sev)"

definition FormatBool :: "bool \<Rightarrow> string" where
  "FormatBool b = (if b then ''true'' else ''false'')"

definition initial_score :: "ScoreDefinition \<Rightarrow> string \<Rightarrow> Score" where
  "initial_score definition project =
     \<lparr> Score_Id = ''score-'' @ Id definition,
       Score_Kind = ''Score'',
       Score_DisplayName = DisplayName definition,
       Score_Description = Description definition,
       Score_Uri = Uri definition,
       Score_UriDisplayName = UriDisplayName definition,
       Score_DefinitionName = project @ ''/artifacts/'' @ Id definition,
       Score_Severity = SEVERITY_UNSPECIFIED,
       Score_Value = NoScoreValue \<rparr>"

definition integer_score :: "IntegerType \<Rightarrow> 32 word \<Rightarrow> Score \<Rightarrow> Score" where
  "integer_score it v score =
     (let configuredMin = Integer_MinValue it;
          configuredMax = Integer_MaxValue it;
          score = score\<lparr> Score_Value := Score_IntegerValue
                    \<lparr> IntegerValue_Value = v,
                      IntegerValue_MinValue = configuredMin,
                      IntegerValue_MaxValue = configuredMax \<rparr> \<rparr>
      in if sint v < sint configuredMin \<or> sint configuredMax < sint v
         then score\<lparr> Score_Severity := Severity_ALERT \<rparr>
         else score\<lparr> Score_Severity :=
                integer_thresholds v (Integer_Thresholds it) (Score_Severity score) \<rparr>)"

definition percent_score :: "float_impl \<Rightarrow> PercentType \<Rightarrow> float64 \<Rightarrow> Score \<Rightarrow> Score" where
  "percent_score F pt v score =
     (let score = score\<lparr> Score_Value := Score_PercentValue v \<rparr>
      in if float_lt v (Finite 0) \<or> float_lt (Finite 100) v
         then score\<lparr> Score_Severity := Severity_ALERT \<rparr>
         else score\<lparr> Score_Severity :=
                percent_thresholds F v (Percent_Thresholds pt) (Score_Severity score) \<rparr>)"

definition boolean_score :: "BooleanType \<Rightarrow> bool \<Rightarrow> Score \<Rightarrow> Score" where
  "boolean_score bt boolVal score =
     (let displayValue =
            (if boolVal \<and> DisplayTrue bt \<noteq> [] then DisplayTrue bt
             else if \<not> boolVal \<and> DisplayFalse bt \<noteq> [] then DisplayFalse bt
             else FormatBool boolVal);
          score = score\<lparr> Score_Value := Score_BooleanValue
                    \<lparr> BooleanValue_Value = boolVal, DisplayValue = displayValue \<rparr> \<rparr>
      in score\<lparr> Score_Severity :=
           boolean_thresholds boolVal (Boolean_Thresholds bt) (Score_Severity score) \<rparr>)"

definition processScoreType ::
  "float_impl \<Rightarrow> ScoreDefinition \<Rightarrow> score_value \<Rightarrow> string \<Rightarrow> error + Score" where
  "processScoreType F definition scoreValue project =
     (let score = initial_score definition project
      in case Type definition of
           Integer it \<Rightarrow>
             (case scoreValue of
                Int64V v \<Rightarrow> Inr (integer_score it (int32_of_int64 v) score)
              | Float64V v \<Rightarrow> Inr (integer_score it (int32_of_float64 F v) score)
              | _ \<Rightarrow> Inl (FailedTypecheckNumber scoreValue))
         | Percent pt \<Rightarrow>
             (case scoreValue of
                Int64V v \<Rightarrow> Inr (percent_score F pt (float32_of_int64 F v) score)
              | Float64V v \<Rightarrow> Inr (percent_score F pt (float32_of_float64 F v) score)
              | _ \<Rightarrow> Inl (FailedTypecheckNumber scoreValue))
         | Boolean bt \<Rightarrow>
             (case scoreValue of
                BoolV boolVal \<Rightarrow> Inr (boolean_score bt boolVal score)
              | _ \<Rightarrow> Inl FailedTypecheckBool)
         | NoType \<Rightarrow> Inr score)"

section \<open>The scoring engine\<close>

text \<open>
  An artifact of the registry. \<open>UpdateTime\<close> is the instant \<^verbatim>\<open>GetUpdateTime().AsTime()\<close>
  denotes, in nanoseconds since the Unix epoch (the epoch itself when the field is unset).
  Instants are unbounded integers: the timestamps of the registry are far from the range
  where Go's \<^verbatim>\<open>Time.Add\<close> saturates.
\<close>

record Artifact =
  Name :: string
  MimeType :: string
  Contents :: string
  UpdateTime :: int

record ResourceInstance =
  ResourceName_String :: string
  ResourceName_Project :: string

text \<open>
  The collaborators of the scoring code that live in other packages are parameters:
  name parsing, placeholder substitution, decoding of payloads, the expression evaluator,
  the protobuf codec, the MIME table and the slack \<^verbatim>\<open>patterns.ResourceUpdateThreshold\<close>
  (in nanoseconds).
\<close>

record scoring_env =
  ParseArtifact :: "string \<Rightarrow> error + string"
  SubstituteReferenceEntity :: "string \<Rightarrow> ResourceInstance \<Rightarrow> error + string"
  getMap :: "string \<Rightarrow> string \<Rightarrow> error + (string \<rightharpoonup> score_value)"
  evaluateScoreExpression :: "string \<Rightarrow> (string \<rightharpoonup> score_value) \<Rightarrow> error + score_value"
  Unmarshal_ScoreDefinition :: "string \<Rightarrow> error + ScoreDefinition"
  Marshal_Score :: "Score \<Rightarrow> error + string"
  MimeTypeForKind :: "string \<Rightarrow> string"
  ResourceUpdateThreshold :: int
  float_ops :: float_impl

text \<open>
  The world the scoring code acts on: what the registry answers to \<^verbatim>\<open>GetArtifact\<close> and to
  \<^verbatim>\<open>SetArtifact\<close>, the \<^verbatim>\<open>SetArtifact\<close> calls made so far (oldest first), and the scores
  printed by a dry run.
\<close>

record world =
  GetArtifact :: "string \<Rightarrow> error + Artifact"
  SetArtifact :: "Artifact \<Rightarrow> error option"
  set_calls :: "Artifact list"
  printed :: "Score list"

definition scoreID :: "string \<Rightarrow> string" where
  "scoreID definitionID = ''score-'' @ definitionID"

definition getArtifact :: "scoring_env \<Rightarrow> world \<Rightarrow> string \<Rightarrow> bool \<Rightarrow> error + Artifact" where
  "getArtifact env w artifactPattern getContents =
     (case ParseArtifact env artifactPattern of
        Inl e \<Rightarrow> Inl (InvalidArtifactPattern artifactPattern e)
      | Inr artifactName \<Rightarrow>
          (case GetArtifact w artifactName of
             Inl e \<Rightarrow> Inl e
           | Inr gotArtifact \<Rightarrow> Inr gotArtifact))"

text \<open>
  \<^verbatim>\<open>scoreArtifact\<close> is a pointer that is \<^verbatim>\<open>nil\<close> when the score does not exist yet; the
  getters of a \<^verbatim>\<open>nil\<close> artifact give the epoch.
\<close>

definition GetUpdateTime_AsTime :: "Artifact option \<Rightarrow> int" where
  "GetUpdateTime_AsTime a = (case a of None \<Rightarrow> 0 | Some x \<Rightarrow> UpdateTime x)"

text \<open>\<^verbatim>\<open>t.Add(ResourceUpdateThreshold).After(u)\<close>\<close>

definition updated_after :: "scoring_env \<Rightarrow> int \<Rightarrow> int \<Rightarrow> bool" where
  "updated_after env t u = (u < t + ResourceUpdateThreshold env)"

record scoreResult =
  result_value :: score_value
  needsUpdate :: bool
  err :: "error option"

definition failed :: "error \<Rightarrow> scoreResult" where
  "failed e = \<lparr> result_value = NilV, needsUpdate = False, err = Some e \<rparr>"

definition processScoreFormula ::
  "scoring_env \<Rightarrow> world \<Rightarrow> ScoreFormula \<Rightarrow> ResourceInstance \<Rightarrow> Artifact option \<Rightarrow> bool
     \<Rightarrow> scoreResult" where
  "processScoreFormula env w formula resource scoreArtifact takeAction =
     (case SubstituteReferenceEntity env (Artifact_Pattern formula) resource of
        Inl e \<Rightarrow> failed (InvalidFormulaPattern (Artifact_Pattern formula) e)
      | Inr extendedArtifact \<Rightarrow>
          if ScoreExpression formula = [] then failed (MissingScoreExpression formula)
          else
            (case getArtifact env w extendedArtifact True of
               Inl e \<Rightarrow> failed (FailedToFetch extendedArtifact e)
             | Inr artifact \<Rightarrow>
                 (let updateRequired =
                        (takeAction \<or> updated_after env (UpdateTime artifact)
                                         (GetUpdateTime_AsTime scoreArtifact))
                  in case getMap env (Contents artifact) (MimeType artifact) of
                       Inl e \<Rightarrow> failed e
                     | Inr artifactMap \<Rightarrow>
                         (case evaluateScoreExpression env (ScoreExpression formula) artifactMap of
                            Inl e \<Rightarrow> failed e
                          | Inr v \<Rightarrow>
                              \<lparr> result_value = v, needsUpdate = updateRequired,
                                err = None \<rparr>))))"

text \<open>
  The loop of \<^verbatim>\<open>processRollUpFormula\<close> over the inner score formulas. \<open>rollup_check\<close> is
  the first half of its body: it evaluates one inner formula and checks its
  \<^verbatim>\<open>reference_id\<close>, and gives the error the loop leaves with there, or the result to
  store. \<open>rollup_loop\<close> is the loop, with the map and the flag it updates.
\<close>

definition rollup_check ::
  "scoring_env \<Rightarrow> world \<Rightarrow> ResourceInstance \<Rightarrow> Artifact option \<Rightarrow> bool \<Rightarrow> ScoreFormula
     \<Rightarrow> error + scoreResult" where
  "rollup_check env w resource scoreArtifact takeAction f =
     (let result = processScoreFormula env w f resource scoreArtifact takeAction
      in case err result of
           Some e \<Rightarrow> Inl (ErrorProcessingScoreFormulas e)
         | None \<Rightarrow>
             (let refId = ReferenceId f
              in if refId = [] then Inl (MissingReferenceId f)
                 else if CHR ''-'' \<in> set refId then Inl (InvalidReferenceId f)
                 else Inr result))"

fun rollup_loop ::
  "scoring_env \<Rightarrow> world \<Rightarrow> ResourceInstance \<Rightarrow> Artifact option \<Rightarrow> bool \<Rightarrow> ScoreFormula list
     \<Rightarrow> (string \<rightharpoonup> score_value) \<Rightarrow> bool \<Rightarrow> error + ((string \<rightharpoonup> score_value) \<times> bool)" where
  "rollup_loop env w resource scoreArtifact takeAction [] rollUpMap updateRequired =
     Inr (rollUpMap, updateRequired)"
| "rollup_loop env w resource scoreArtifact takeAction (f # fs) rollUpMap updateRequired =
     (case rollup_check env w resource scoreArtifact takeAction f of
        Inl e \<Rightarrow> Inl e
      | Inr result \<Rightarrow>
          rollup_loop env w resource scoreArtifact takeAction fs
            (rollUpMap(ReferenceId f \<mapsto> result_value result))
            (updateRequired \<or> needsUpdate result))"

definition processRollUpFormula ::
  "scoring_env \<Rightarrow> world \<Rightarrow> RollUpFormula \<Rightarrow> ResourceInstance \<Rightarrow> Artifact option \<Rightarrow> bool
     \<Rightarrow> scoreResult" where
  "processRollUpFormula env w formula resource scoreArtifact takeAction =
     (if ScoreFormulas formula = [] then failed MissingScoreFormulas
      else if RollupExpression formula = [] then failed MissingRollupExpression
      else
        (case rollup_loop env w resource scoreArtifact takeAction (ScoreFormulas formula)
                Map.empty takeAction of
           Inl e \<Rightarrow> failed e
         | Inr (rollUpMap, updateRequired) \<Rightarrow>
             if updateRequired then
               (case evaluateScoreExpression env (RollupExpression formula) rollUpMap of
                  Inl e \<Rightarrow> failed e
                | Inr v \<Rightarrow> \<lparr> result_value = v, needsUpdate = True, err = None \<rparr>)
             else \<lparr> result_value = NilV, needsUpdate = False, err = None \<rparr>))"

definition processFormula ::
  "scoring_env \<Rightarrow> world \<Rightarrow> ScoreDefinition \<Rightarrow> ResourceInstance \<Rightarrow> Artifact option \<Rightarrow> bool
     \<Rightarrow> scoreResult" where
  "processFormula env w definition resource scoreArtifact takeAction =
     (case Formula definition of
        ScoreDefinition_ScoreFormula f \<Rightarrow>
          processScoreFormula env w f resource scoreArtifact takeAction
      | ScoreDefinition_RollupFormula f \<Rightarrow>
          processRollUpFormula env w f resource scoreArtifact takeAction
      | NoFormula \<Rightarrow> failed InvalidFormula)"

definition uploadScore ::
  "scoring_env \<Rightarrow> world \<Rightarrow> ResourceInstance \<Rightarrow> Score \<Rightarrow> error option \<times> world" where
  "uploadScore env w resource score =
     (case Marshal_Score env score of
        Inl e \<Rightarrow> (Some e, w)
      | Inr artifactBytes \<Rightarrow>
          (let artifact = \<lparr> Name = ResourceName_String resource @ ''/artifacts/'' @ Score_Id score,
                            MimeType = MimeTypeForKind env ''Score'',
                            Contents = artifactBytes,
                            UpdateTime = 0 \<rparr>;
               w' = w\<lparr> set_calls := set_calls w @ [artifact] \<rparr>
           in case SetArtifact w artifact of
                Some e \<Rightarrow> (Some (FailedToSave (Name artifact) e), w')
              | None \<Rightarrow> (None, w')))"

text \<open>
  The first part of \<^verbatim>\<open>CalculateScore\<close>, up to the call of \<^verbatim>\<open>processFormula\<close>: it fetches
  the score artifact to be generated and decides \<^verbatim>\<open>takeAction\<close> in two steps, as the
  source does. The result is the error \<^verbatim>\<open>CalculateScore\<close> returns there, or the pair of
  \<^verbatim>\<open>scoreArtifact\<close> and \<^verbatim>\<open>takeAction\<close> it goes on with.
\<close>

definition definition_updated ::
  "scoring_env \<Rightarrow> Artifact \<Rightarrow> Artifact option \<Rightarrow> bool \<Rightarrow> bool" where
  "definition_updated env defArtifact scoreArtifact takeAction =
     (if scoreArtifact \<noteq> None
         \<and> updated_after env (UpdateTime defArtifact) (GetUpdateTime_AsTime scoreArtifact)
      then True else takeAction)"

definition CalculateScore_takeAction ::
  "scoring_env \<Rightarrow> world \<Rightarrow> Artifact \<Rightarrow> ScoreDefinition \<Rightarrow> ResourceInstance
     \<Rightarrow> error + (Artifact option \<times> bool)" where
  "CalculateScore_takeAction env w defArtifact definition resource =
     (let artifactName = ResourceName_String resource @ ''/artifacts/'' @ scoreID (Id definition)
      in case getArtifact env w artifactName False of
           Inl e \<Rightarrow>
             if status_Code e = NotFound
             then Inr (None, definition_updated env defArtifact None True)
             else Inl (FailedToFetch artifactName e)
         | Inr scoreArtifact \<Rightarrow>
             Inr (Some scoreArtifact,
                  definition_updated env defArtifact (Some scoreArtifact) False))"

definition CalculateScore ::
  "scoring_env \<Rightarrow> world \<Rightarrow> Artifact \<Rightarrow> ResourceInstance \<Rightarrow> bool \<Rightarrow> error option \<times> world" where
  "CalculateScore env w defArtifact resource dryRun =
     (let project = ResourceName_Project resource @ ''/locations/global''
      in case Unmarshal_ScoreDefinition env (Contents defArtifact) of
           Inl e \<Rightarrow> (Some e, w)
         | Inr definition \<Rightarrow>
             (case CalculateScore_takeAction env w defArtifact definition resource of
                Inl e \<Rightarrow> (Some e, w)
              | Inr (scoreArtifact, takeAction) \<Rightarrow>
                  (let result = processFormula env w definition resource scoreArtifact takeAction
                   in case err result of
                        Some e \<Rightarrow> (Some e, w)
                      | None \<Rightarrow>
                          if needsUpdate result then
                            (case processScoreType (float_ops env) definition
                                    (result_value result) project of
                               Inl e \<Rightarrow> (Some e, w)
                             | Inr score \<Rightarrow>
                                 if dryRun then (None, w\<lparr> printed := printed w @ [score] \<rparr>)
                                 else uploadScore env w resource score)
                          else (None, w))))"

section \<open>Resource names\<close>

text \<open>
  Modelled from the spec: the package \<^verbatim>\<open>names\<close> is not part of the sources at hand. A
  resource name is a tuple of identifiers in the fixed hierarchy project, API, version or
  deployment; the parent of a name drops its deepest component.
\<close>

record Api_name =
  Api_ProjectID :: string
  ApiID :: string

record Version_name =
  Version_ProjectID :: string
  Version_ApiID :: string
  VersionID :: string

record Deployment_name =
  Deployment_ProjectID :: string
  Deployment_ApiID :: string
  DeploymentID :: string

definition Version_Api :: "Version_name \<Rightarrow> Api_name" where
  "Version_Api v = \<lparr> Api_ProjectID = Version_ProjectID v, ApiID = Version_ApiID v \<rparr>"

definition Deployment_Api :: "Deployment_name \<Rightarrow> Api_name" where
  "Deployment_Api d = \<lparr> Api_ProjectID = Deployment_ProjectID d, ApiID = Deployment_ApiID d \<rparr>"

text \<open>
  The parsers and the renderer of API names are parameters of the export code, so that
  what is proved about the export holds for every implementation of them.
\<close>

record names_pkg =
  ParseApi :: "string \<Rightarrow> error + Api_name"
  ParseVersion :: "string \<Rightarrow> error + Version_name"
  ParseDeployment :: "string \<Rightarrow> error + Deployment_name"
  Api_String :: "Api_name \<Rightarrow> string"

text \<open>
  Modelled from the spec: one implementation of the parameters, after the resource-name
  grammar \<^verbatim>\<open>projects/{p}/locations/global/apis/{a}/versions/{v}\<close> (and
  \<^verbatim>\<open>.../deployments/{d}\<close>) with identifiers matching \<^verbatim>\<open>[a-z0-9-._~%]+\<close>, and the canonical
  slash-form as the rendering.
\<close>

fun split_on :: "char \<Rightarrow> string \<Rightarrow> string list" where
  "split_on c [] = [[]]"
| "split_on c (x # xs) =
     (if x = c then [] # split_on c xs
      else (case split_on c xs of s # ss \<Rightarrow> (x # s) # ss | [] \<Rightarrow> [[x]]))"

definition valid_id :: "string \<Rightarrow> bool" where
  "valid_id s =
     (s \<noteq> [] \<and> list_all (\<lambda>ch. ch \<in> set ''abcdefghijklmnopqrstuvwxyz0123456789-._~%'') s)"

definition global_ParseApi :: "string \<Rightarrow> error + Api_name" where
  "global_ParseApi name =
     (case split_on CHR ''/'' name of
        [k1, p, k2, l, k3, a] \<Rightarrow>
          if k1 = ''projects'' \<and> k2 = ''locations'' \<and> l = ''global'' \<and> k3 = ''apis''
             \<and> valid_id p \<and> valid_id a
          then Inr \<lparr> Api_ProjectID = p, ApiID = a \<rparr>
          else Inl (ExternalError name)
      | _ \<Rightarrow> Inl (ExternalError name))"

definition global_ParseVersion :: "string \<Rightarrow> error + Version_name" where
  "global_ParseVersion name =
     (case split_on CHR ''/'' name of
        [k1, p, k2, l, k3, a, k4, v] \<Rightarrow>
          if k1 = ''projects'' \<and> k2 = ''locations'' \<and> l = ''global'' \<and> k3 = ''apis''
             \<and> k4 = ''versions'' \<and> valid_id p \<and> valid_id a \<and> valid_id v
          then Inr \<lparr> Version_ProjectID = p, Version_ApiID = a, VersionID = v \<rparr>
          else Inl (ExternalError name)
      | _ \<Rightarrow> Inl (ExternalError name))"

definition global_ParseDeployment :: "string \<Rightarrow> error + Deployment_name" where
  "global_ParseDeployment name =
     (case split_on CHR ''/'' name of
        [k1, p, k2, l, k3, a, k4, d] \<Rightarrow>
          if k1 = ''projects'' \<and> k2 = ''locations'' \<and> l = ''global'' \<and> k3 = ''apis''
             \<and> k4 = ''deployments'' \<and> valid_id p \<and> valid_id a \<and> valid_id d
          then Inr \<lparr> Deployment_ProjectID = p, Deployment_ApiID = a, DeploymentID = d \<rparr>
          else Inl (ExternalError name)
      | _ \<Rightarrow> Inl (ExternalError name))"

definition global_Api_String :: "Api_name \<Rightarrow> string" where
  "global_Api_String a = ''projects/'' @ Api_ProjectID a @ ''/locations/global/apis/'' @ ApiID a"

definition names_global :: names_pkg where
  "names_global =
     \<lparr> ParseApi = global_ParseApi, ParseVersion = global_ParseVersion,
       ParseDeployment = global_ParseDeployment, Api_String = global_Api_String \<rparr>"

section \<open>Export of an API as a document\<close>

definition relativeVersionName :: "names_pkg \<Rightarrow> Api_name \<Rightarrow> string \<Rightarrow> error + string" where
  "relativeVersionName N apiName version =
     (if version = [] then Inr []
      else
        (case ParseVersion N version of
           Inl e \<Rightarrow> Inl e
         | Inr versionName \<Rightarrow>
             if Api_String N (Version_Api versionName) = Api_String N apiName
             then Inr (VersionID versionName)
             else Inr version))"

definition relativeDeploymentName :: "names_pkg \<Rightarrow> Api_name \<Rightarrow> string \<Rightarrow> error + string" where
  "relativeDeploymentName N apiName deployment =
     (if deployment = [] then Inr []
      else
        (case ParseDeployment N deployment of
           Inl e \<Rightarrow> Inl e
         | Inr deploymentName \<Rightarrow>
             if Api_String N (Deployment_Api deploymentName) = Api_String N apiName
             then Inr (DeploymentID deploymentName)
             else Inr deployment))"

text \<open>The documents of the export: a header, then a payload that depends on the kind.\<close>

record Metadata =
  Metadata_Name :: string
  Parent :: string
  Labels :: "string \<rightharpoonup> string"
  Annotations :: "string \<rightharpoonup> string"

record Header =
  ApiVersion :: string
  Kind :: string
  Metadata :: Metadata

record models_ApiVersion =
  ApiVersion_Header :: Header
  ApiVersion_Data :: string

record models_ApiDeployment =
  ApiDeployment_Header :: Header
  ApiDeployment_Data :: string

record models_Artifact =
  Artifact_Header :: Header
  Artifact_Data :: string

record ApiData =
  Data_DisplayName :: string
  Data_Description :: string
  Data_Availability :: string
  Data_RecommendedVersion :: string
  Data_RecommendedDeployment :: string
  ApiVersions :: "models_ApiVersion list"
  ApiDeployments :: "models_ApiDeployment list"
  Artifacts :: "models_Artifact list"

record models_Api =
  Api_Header :: Header
  Api_Data :: ApiData

text \<open>The messages of the registry that the export reads.\<close>

record rpc_Api =
  Api_Name :: string
  Api_DisplayName :: string
  Api_Description :: string
  Api_Availability :: string
  RecommendedVersion :: string
  RecommendedDeployment :: string
  Api_Labels :: "string \<rightharpoonup> string"
  Api_Annotations :: "string \<rightharpoonup> string"

record rpc_ApiVersion =
  ApiVersion_Name :: string

record rpc_ApiDeployment =
  ApiDeployment_Name :: string

text \<open>The warnings written to the log: \<^verbatim>\<open>Skipping %s: %s\<close> and \<^verbatim>\<open>Skipping %s\<close>.\<close>

datatype log_entry = SkippingBecause string error | Skipping string

text \<open>
  The collaborators of the export that live in other files: the names package, the three
  listings of the registry (each answers with the messages it delivers to the handler, in
  order, and the error the listing ends with, if any), the builders of the child documents
  (which may write to the log themselves) and the YAML encoder.
\<close>

record patch_env =
  names :: names_pkg
  ListVersions :: "Api_name \<Rightarrow> rpc_ApiVersion list \<times> error option"
  ListDeployments :: "Api_name \<Rightarrow> rpc_ApiDeployment list \<times> error option"
  ListArtifacts :: "Api_name \<Rightarrow> Artifact list \<times> error option"
  newApiVersion ::
    "rpc_ApiVersion \<Rightarrow> bool \<Rightarrow> log_entry list \<Rightarrow> (error + models_ApiVersion) \<times> log_entry list"
  newApiDeployment ::
    "rpc_ApiDeployment \<Rightarrow> bool \<Rightarrow> log_entry list
       \<Rightarrow> (error + models_ApiDeployment) \<times> log_entry list"
  newArtifact :: "Artifact \<Rightarrow> error + models_Artifact"
  yamlEncode :: "models_Api \<Rightarrow> error + string"

text \<open>
  Modelled from the spec: the listing functions of package \<^verbatim>\<open>core\<close> are not part of the
  sources at hand. A listing hands each message to the handler, stops with the handler's
  error at the first handler that fails, and otherwise ends with its own error or none.
\<close>

fun list_with_handler ::
  "('m \<Rightarrow> 's \<Rightarrow> error option \<times> 's) \<Rightarrow> 'm list \<Rightarrow> error option \<Rightarrow> 's \<Rightarrow> error option \<times> 's" where
  "list_with_handler handler [] final st = (final, st)"
| "list_with_handler handler (m # ms) final st =
     (case handler m st of
        (Some e, st') \<Rightarrow> (Some e, st')
      | (None, st') \<Rightarrow> list_with_handler handler ms final st')"

text \<open>The handler of \<^verbatim>\<open>collectChildArtifacts\<close>; its state is the list built and the log.\<close>

definition collectChildArtifacts_handler ::
  "patch_env \<Rightarrow> Artifact \<Rightarrow> models_Artifact list \<times> log_entry list
     \<Rightarrow> error option \<times> (models_Artifact list \<times> log_entry list)" where
  "collectChildArtifacts_handler env message st =
     (case st of (artifacts, lg) \<Rightarrow>
        (case newArtifact env message of
           Inl e \<Rightarrow> (None, (artifacts, lg @ [SkippingBecause (Name message) e]))
         | Inr artifact \<Rightarrow>
             if Kind (Artifact_Header artifact) = ''Artifact''
             then (None, (artifacts, lg @ [Skipping (Name message)]))
             else
               (let h = Artifact_Header artifact;
                    h = h\<lparr> ApiVersion := [] \<rparr>;
                    h = h\<lparr> Metadata := (Metadata h)\<lparr> Parent := [] \<rparr> \<rparr>
                in (None, (artifacts @ [artifact\<lparr> Artifact_Header := h \<rparr>], lg)))))"

definition collectChildArtifacts ::
  "patch_env \<Rightarrow> log_entry list \<Rightarrow> Api_name
     \<Rightarrow> (error + models_Artifact list) \<times> log_entry list" where
  "collectChildArtifacts env lg parent =
     (case ListArtifacts env parent of (messages, final) \<Rightarrow>
        (case list_with_handler (collectChildArtifacts_handler env) messages final ([], lg) of
           (Some e, (artifacts, lg')) \<Rightarrow> (Inl e, lg')
         | (None, (artifacts, lg')) \<Rightarrow> (Inr artifacts, lg')))"

text \<open>The two handlers inside \<^verbatim>\<open>newApi\<close>, for the versions and the deployments.\<close>

definition newApi_version_handler ::
  "patch_env \<Rightarrow> rpc_ApiVersion \<Rightarrow> models_ApiVersion list \<times> log_entry list
     \<Rightarrow> error option \<times> (models_ApiVersion list \<times> log_entry list)" where
  "newApi_version_handler env message st =
     (case st of (versions, lg) \<Rightarrow>
        (case newApiVersion env message True lg of
           (Inl e, lg') \<Rightarrow> (Some e, (versions, lg'))
         | (Inr version, lg') \<Rightarrow>
             (let h = ApiVersion_Header version;
                  h = h\<lparr> ApiVersion := [] \<rparr>;
                  h = h\<lparr> Kind := [] \<rparr>;
                  h = h\<lparr> Metadata := (Metadata h)\<lparr> Parent := [] \<rparr> \<rparr>
              in (None, (versions @ [version\<lparr> ApiVersion_Header := h \<rparr>], lg')))))"

definition newApi_deployment_handler ::
  "patch_env \<Rightarrow> rpc_ApiDeployment \<Rightarrow> models_ApiDeployment list \<times> log_entry list
     \<Rightarrow> error option \<times> (models_ApiDeployment list \<times> log_entry list)" where
  "newApi_deployment_handler env message st =
     (case st of (deployments, lg) \<Rightarrow>
        (case newApiDeployment env message True lg of
           (Inl e, lg') \<Rightarrow> (Some e, (deployments, lg'))
         | (Inr deployment, lg') \<Rightarrow>
             (let h = ApiDeployment_Header deployment;
                  h = h\<lparr> ApiVersion := [] \<rparr>;
                  h = h\<lparr> Kind := [] \<rparr>;
                  h = h\<lparr> Metadata := (Metadata h)\<lparr> Parent := [] \<rparr> \<rparr>
              in (None, (deployments @ [deployment\<lparr> ApiDeployment_Header := h \<rparr>], lg')))))"

text \<open>The nested part of \<^verbatim>\<open>newApi\<close>: versions, then deployments, then artifacts.\<close>

definition newApi_children ::
  "patch_env \<Rightarrow> log_entry list \<Rightarrow> Api_name
     \<Rightarrow> (error + (models_ApiVersion list \<times> models_ApiDeployment list \<times> models_Artifact list))
        \<times> log_entry list" where
  "newApi_children env lg apiName =
     (case list_with_handler (newApi_version_handler env)
             (fst (ListVersions env apiName)) (snd (ListVersions env apiName)) ([], lg) of
        (Some e, (versions, lg1)) \<Rightarrow> (Inl e, lg1)
      | (None, (versions, lg1)) \<Rightarrow>
          (case list_with_handler (newApi_deployment_handler env)
                  (fst (ListDeployments env apiName)) (snd (ListDeployments env apiName))
                  ([], lg1) of
             (Some e, (deployments, lg2)) \<Rightarrow> (Inl e, lg2)
           | (None, (deployments, lg2)) \<Rightarrow>
               (case collectChildArtifacts env lg2 apiName of
                  (Inl e, lg3) \<Rightarrow> (Inl e, lg3)
                | (Inr artifacts, lg3) \<Rightarrow> (Inr (versions, deployments, artifacts), lg3))))"

definition RegistryV1 :: string where
  "RegistryV1 = ''apigeeregistry/v1''"

definition newApi ::
  "patch_env \<Rightarrow> log_entry list \<Rightarrow> rpc_Api \<Rightarrow> bool \<Rightarrow> (error + models_Api) \<times> log_entry list" where
  "newApi env lg message nested =
     (case ParseApi (names env) (Api_Name message) of
        Inl e \<Rightarrow> (Inl e, lg)
      | Inr apiName \<Rightarrow>
          (case relativeVersionName (names env) apiName (RecommendedVersion message) of
             Inl e \<Rightarrow> (Inl e, lg)
           | Inr recommendedVersion \<Rightarrow>
               (case relativeDeploymentName (names env) apiName
                       (RecommendedDeployment message) of
                  Inl e \<Rightarrow> (Inl e, lg)
                | Inr recommendedDeployment \<Rightarrow>
                    (case (if nested then newApi_children env lg apiName
                           else (Inr ([], [], []), lg)) of
                       (Inl e, lg') \<Rightarrow> (Inl e, lg')
                     | (Inr (versions, deployments, artifacts), lg') \<Rightarrow>
                         (Inr \<lparr> Api_Header =
                                  \<lparr> ApiVersion = RegistryV1, Kind = ''API'',
                                    Metadata =
                                      \<lparr> Metadata_Name = ApiID apiName, Parent = [],
                                        Labels = Api_Labels message,
                                        Annotations = Api_Annotations message \<rparr> \<rparr>,
                                Api_Data =
                                  \<lparr> Data_DisplayName = Api_DisplayName message,
                                    Data_Description = Api_Description message,
                                    Data_Availability = Api_Availability message,
                                    Data_RecommendedVersion = recommendedVersion,
                                    Data_RecommendedDeployment = recommendedDeployment,
                                    ApiVersions = versions,
                                    ApiDeployments = deployments,
                                    Artifacts = artifacts \<rparr> \<rparr>, lg')))))"

definition ExportAPI ::
  "patch_env \<Rightarrow> log_entry list \<Rightarrow> rpc_Api \<Rightarrow> bool
     \<Rightarrow> (error + (string \<times> Header)) \<times> log_entry list" where
  "ExportAPI env lg message nested =
     (case newApi env lg message nested of
        (Inl e, lg') \<Rightarrow> (Inl e, lg')
      | (Inr api, lg') \<Rightarrow>
          (case yamlEncode env api of
             Inl e \<Rightarrow> (Inl e, lg')
           | Inr b \<Rightarrow> (Inr (b, Api_Header api), lg')))"

section \<open>The action planner\<close>

text \<open>
  Modelled from the spec: \<^verbatim>\<open>ProcessManifest\<close> is not part of the sources at hand (only its
  tests are). The planner goes through the generated resources of the manifest in order;
  the actions of one entry (target expansion, dependency groups, staleness, substitution
  and revision qualification, which belong to the pattern engine and the lister) are a
  parameter. Actions are accumulated globally; when the count reaches \<^verbatim>\<open>maxActions\<close>,
  planning halts and returns what has been produced so far. Actions are sorted by command
  string before return. The cap is a count, a natural number.
\<close>

record Dependency =
  Dependency_Pattern :: string
  Dependency_Filter :: string

record GeneratedResource =
  Pattern :: string
  Filter :: string
  Dependencies :: "Dependency list"
  Action_Template :: string
  Receipt :: bool

record Manifest =
  Manifest_Id :: string
  GeneratedResources :: "GeneratedResource list"

record Action =
  Command :: string
  GeneratedResource_Name :: string
  RequiresReceipt :: bool

text \<open>
  Modelled from the spec: the accumulation of \<^verbatim>\<open>ProcessManifest\<close>, one action at a time,
  which halts when the count reaches \<^verbatim>\<open>maxActions\<close>.
\<close>

fun accumulate :: "nat \<Rightarrow> Action list \<Rightarrow> Action list \<Rightarrow> Action list" where
  "accumulate maxActions actions [] = actions"
| "accumulate maxActions actions (a # new) =
     (if maxActions \<le> length actions then actions
      else accumulate maxActions (actions @ [a]) new)"

text \<open>
  Modelled from the spec: the loop of \<^verbatim>\<open>ProcessManifest\<close> over the generated resources
  of the manifest.
\<close>

fun plan_entries ::
  "(string \<Rightarrow> GeneratedResource \<Rightarrow> Action list) \<Rightarrow> string \<Rightarrow> nat \<Rightarrow> Action list
     \<Rightarrow> GeneratedResource list \<Rightarrow> Action list" where
  "plan_entries entry_actions projectID maxActions actions [] = actions"
| "plan_entries entry_actions projectID maxActions actions (g # gs) =
     (if maxActions \<le> length actions then actions
      else plan_entries entry_actions projectID maxActions
             (accumulate maxActions actions (entry_actions projectID g)) gs)"

text \<open>
  Modelled from the spec: \<^verbatim>\<open>ProcessManifest\<close>, the plan sorted by command string.
\<close>

definition ProcessManifest ::
  "(string \<Rightarrow> GeneratedResource \<Rightarrow> Action list) \<Rightarrow> string \<Rightarrow> Manifest \<Rightarrow> nat \<Rightarrow> Action list" where
  "ProcessManifest entry_actions projectID manifest maxActions =
     sort_key Command
       (plan_entries entry_actions projectID maxActions [] (GeneratedResources manifest))"

section \<open>Example inputs\<close>

text \<open>
  Concrete inputs at which the properties below are instantiated. The float operations of
  the examples answer \<^verbatim>\<open>0x80000000\<close> for an unrepresentable conversion, as amd64 does, and
  keep the numbers of the examples, which \<^verbatim>\<open>float32\<close> represents exactly, as they are.
\<close>

definition example_float_impl :: float_impl where
  "example_float_impl =
     \<lparr> int32_unrepresentable = (\<lambda>v. 2147483648), round_float32 = (\<lambda>q. Finite q) \<rparr>"

definition example_integer_type :: IntegerType where
  "example_integer_type =
     \<lparr> Integer_MinValue = 0, Integer_MaxValue = 100,
       Integer_Thresholds =
         [\<lparr> NumberThreshold_Severity = Severity_ALERT,
            NumberThreshold_Range = \<lparr> Range_Min = 0, Range_Max = 30 \<rparr> \<rparr>,
          \<lparr> NumberThreshold_Severity = Severity_WARNING,
            NumberThreshold_Range = \<lparr> Range_Min = 31, Range_Max = 80 \<rparr> \<rparr>,
          \<lparr> NumberThreshold_Severity = Severity_OK,
            NumberThreshold_Range = \<lparr> Range_Min = 61, Range_Max = 100 \<rparr> \<rparr>] \<rparr>"

definition example_boolean_type :: BooleanType where
  "example_boolean_type =
     \<lparr> DisplayTrue = ''yes'', DisplayFalse = [],
       Boolean_Thresholds =
         [\<lparr> BooleanThreshold_Severity = Severity_ALERT, BooleanThreshold_Value = True \<rparr>,
          \<lparr> BooleanThreshold_Severity = Severity_OK, BooleanThreshold_Value = True \<rparr>] \<rparr>"

definition example_definition :: "definition_type \<Rightarrow> ScoreDefinition" where
  "example_definition ty =
     \<lparr> Id = ''lint-error'', DisplayName = ''Lint'', Description = [], Uri = [],
       UriDisplayName = [], Type = ty, Formula = NoFormula \<rparr>"

text \<open>
  Following the spec's words, for comparison with the code: the 32-bit integer nearest to a
  number.
\<close>

definition nearest_int32 :: "rat \<Rightarrow> int" where
  "nearest_int32 q = max (- (2 ^ 31)) (min (2 ^ 31 - 1) (round q))"

definition example_formula :: "string \<Rightarrow> string \<Rightarrow> ScoreFormula" where
  "example_formula artifactID refId =
     \<lparr> Artifact_Pattern = artifactID, ScoreExpression = ''size'', ReferenceId = refId \<rparr>"

definition example_rollup :: "ScoreFormula list \<Rightarrow> RollUpFormula" where
  "example_rollup fs = \<lparr> ScoreFormulas = fs, RollupExpression = ''a'' \<rparr>"

definition example_rollup_definition :: "ScoreFormula list \<Rightarrow> ScoreDefinition" where
  "example_rollup_definition fs =
     \<lparr> Id = ''lint-error'', DisplayName = ''Lint'', Description = [], Uri = [],
       UriDisplayName = [], Type = Integer example_integer_type,
       Formula = ScoreDefinition_RollupFormula (example_rollup fs) \<rparr>"

definition example_env :: scoring_env where
  "example_env =
     \<lparr> ParseArtifact = (\<lambda>s. if s = [] then Inl (ExternalError ''empty name'') else Inr s),
       SubstituteReferenceEntity = (\<lambda>p r. Inr (ResourceName_String r @ ''/artifacts/'' @ p)),
       getMap = (\<lambda>contents mime.
                   if contents = [] then Inl (ExternalError ''no contents'')
                   else Inr [''size'' \<mapsto> Int64V (of_nat (length contents))]),
       evaluateScoreExpression =
         (\<lambda>expr m. case m expr of Some v \<Rightarrow> Inr v | None \<Rightarrow> Inl (ExternalError expr)),
       Unmarshal_ScoreDefinition =
         (\<lambda>c. if c = ''good'' then
                  Inr (example_rollup_definition
                         [example_formula ''lint'' ''a'', example_formula ''style'' ''b''])
               else if c = ''bad'' then
                  Inr (example_rollup_definition
                         [example_formula ''lint'' ''a'', example_formula ''absent'' ''b'',
                          example_formula ''style'' ''c-d''])
               else Inl (ExternalError ''cannot parse definition'')),
       Marshal_Score = (\<lambda>s. Inr (Score_Id s)),
       MimeTypeForKind = (\<lambda>k. ''application/octet-stream;type='' @ k),
       ResourceUpdateThreshold = 1000000000,
       float_ops = example_float_impl \<rparr>"

definition example_resource :: ResourceInstance where
  "example_resource =
     \<lparr> ResourceName_String = ''projects/p/locations/global/apis/a'',
       ResourceName_Project = ''projects/p'' \<rparr>"

definition example_world :: world where
  "example_world =
     \<lparr> GetArtifact =
         (\<lambda>name.
            if name = ''projects/p/locations/global/apis/a/artifacts/lint'' then
              Inr \<lparr> Name = name, MimeType = ''text/plain'', Contents = ''abc'',
                    UpdateTime = 3000000000 \<rparr>
            else if name = ''projects/p/locations/global/apis/a/artifacts/style'' then
              Inr \<lparr> Name = name, MimeType = ''text/plain'', Contents = ''abcde'',
                    UpdateTime = 3000000000 \<rparr>
            else if name = ''projects/p/locations/global/apis/a/artifacts/score-lint-error'' then
              Inr \<lparr> Name = name, MimeType = ''application/octet-stream;type=Score'',
                    Contents = ''score'', UpdateTime = 5000000000 \<rparr>
            else Inl (StatusError NotFound name)),
       SetArtifact = (\<lambda>a. None),
       set_calls = [],
       printed = [] \<rparr>"

definition example_defArtifact :: "string \<Rightarrow> int \<Rightarrow> Artifact" where
  "example_defArtifact contents t =
     \<lparr> Name = ''projects/p/locations/global/artifacts/lint-error'',
       MimeType = ''application/octet-stream;type=ScoreDefinition'',
       Contents = contents, UpdateTime = t \<rparr>"

definition example_score_artifact :: Artifact where
  "example_score_artifact =
     \<lparr> Name = ''projects/p/locations/global/apis/a/artifacts/score-lint-error'',
       MimeType = ''application/octet-stream;type=Score'',
       Contents = ''score'', UpdateTime = 5000000000 \<rparr>"

definition example_api_name :: Api_name where
  "example_api_name = \<lparr> Api_ProjectID = ''p'', ApiID = ''a'' \<rparr>"

definition example_rpc_api :: "string \<Rightarrow> string \<Rightarrow> rpc_Api" where
  "example_rpc_api version deployment =
     \<lparr> Api_Name = ''projects/p/locations/global/apis/a'', Api_DisplayName = ''A'',
       Api_Description = [], Api_Availability = ''GENERAL'',
       RecommendedVersion = version, RecommendedDeployment = deployment,
       Api_Labels = Map.empty, Api_Annotations = Map.empty \<rparr>"

definition example_message :: "string \<Rightarrow> string \<Rightarrow> Artifact" where
  "example_message artifactID mime =
     \<lparr> Name = ''projects/p/locations/global/apis/a/artifacts/'' @ artifactID,
       MimeType = mime, Contents = ''x'', UpdateTime = 0 \<rparr>"

definition example_newArtifact :: "Artifact \<Rightarrow> error + models_Artifact" where
  "example_newArtifact message =
     (if MimeType message = ''broken'' then Inl (ExternalError ''cannot decode'')
      else Inr \<lparr> Artifact_Header =
                  \<lparr> ApiVersion = RegistryV1, Kind = MimeType message,
                    Metadata = \<lparr> Metadata_Name = Name message,
                                 Parent = ''apis/a'', Labels = Map.empty,
                                 Annotations = Map.empty \<rparr> \<rparr>,
                Artifact_Data = Contents message \<rparr>)"

definition example_patch_env :: patch_env where
  "example_patch_env =
     \<lparr> names = names_global,
       ListVersions = (\<lambda>a. ([], None)),
       ListDeployments = (\<lambda>a. ([], None)),
       ListArtifacts =
         (\<lambda>a. ([example_message ''l'' ''Lifecycle'', example_message ''g'' ''Artifact'',
                 example_message ''b'' ''broken''], None)),
       newApiVersion = (\<lambda>m nested lg. (Inl (ExternalError (ApiVersion_Name m)), lg)),
       newApiDeployment = (\<lambda>m nested lg. (Inl (ExternalError (ApiDeployment_Name m)), lg)),
       newArtifact = example_newArtifact,
       yamlEncode = (\<lambda>api. Inr (Metadata_Name (Metadata (Api_Header api)))) \<rparr>"

definition example_lifecycle_child :: models_Artifact where
  "example_lifecycle_child =
     \<lparr> Artifact_Header =
         \<lparr> ApiVersion = [], Kind = ''Lifecycle'',
           Metadata = \<lparr> Metadata_Name = ''projects/p/locations/global/apis/a/artifacts/l'',
                        Parent = [], Labels = Map.empty, Annotations = Map.empty \<rparr> \<rparr>,
       Artifact_Data = ''x'' \<rparr>"

definition example_entry_actions :: "string \<Rightarrow> GeneratedResource \<Rightarrow> Action list" where
  "example_entry_actions projectID g =
     map (\<lambda>v. \<lparr> Command = Action_Template g @ '' '' @ v,
                 GeneratedResource_Name = ''projects/'' @ projectID @ ''/'' @ v,
                 RequiresReceipt = Receipt g \<rparr>)
       [''1.1.0'', ''1.0.0'', ''1.0.1'']"

definition example_manifest :: Manifest where
  "example_manifest =
     \<lparr> Manifest_Id = ''controller-test'',
       GeneratedResources =
         [\<lparr> Pattern = ''apis/-/versions/-/specs/-/artifacts/vocabulary'', Filter = [],
            Dependencies = [\<lparr> Dependency_Pattern = ''$resource.spec'', Dependency_Filter = [] \<rparr>],
            Action_Template = ''compute'', Receipt = False \<rparr>] \<rparr>"

section \<open>Properties of processScoreType\<close>

lemma integer_thresholds_find:
  "integer_thresholds v ts sev =
     (case find (\<lambda>t. sint (Range_Min (NumberThreshold_Range t)) \<le> sint v
                     \<and> sint v \<le> sint (Range_Max (NumberThreshold_Range t))) ts of
        Some t \<Rightarrow> NumberThreshold_Severity t
      | None \<Rightarrow> sev)"
  by (induction ts) simp_all

lemma integer_score_severity:
  "Score_Severity (integer_score it v (initial_score d p)) =
     (if sint v < sint (Integer_MinValue it) \<or> sint (Integer_MaxValue it) < sint v
      then Severity_ALERT
      else (case find (\<lambda>t. sint (Range_Min (NumberThreshold_Range t)) \<le> sint v
                     \<and> sint v \<le> sint (Range_Max (NumberThreshold_Range t))) (Integer_Thresholds it) of
        Some t \<Rightarrow> NumberThreshold_Severity t
      | None \<Rightarrow> SEVERITY_UNSPECIFIED))"
  by (simp add: integer_score_def Let_def initial_score_def integer_thresholds_find)

lemma integer_score_value:
  "Score_Value (integer_score it v s) =
     Score_IntegerValue \<lparr> IntegerValue_Value = v, IntegerValue_MinValue = Integer_MinValue it,
                          IntegerValue_MaxValue = Integer_MaxValue it \<rparr>"
  by (simp add: integer_score_def Let_def)

lemma sint_int32_of_int64: "sint (int32_of_int64 w) = signed_take_bit 31 (sint w)"
  unfolding int32_of_int64_def
  by (simp add: sint_uint signed_take_bit_eq_iff_take_bit_eq unsigned_ucast_eq)

lemma sint_int32_of_int64_in_range:
  assumes "- (2 ^ 31) \<le> sint w" and "sint w < 2 ^ 31"
  shows "sint (int32_of_int64 w) = sint w"
  using assms by (simp add: sint_int32_of_int64 signed_take_bit_int_eq_self)

lemma sint_int32_of_float64_in_range:
  assumes "- (2 ^ 31) \<le> truncate_rat q" and "truncate_rat q \<le> 2 ^ 31 - 1"
  shows "sint (int32_of_float64 F (Finite q)) = truncate_rat q"
  using assms by (simp add: int32_of_float64_def signed_of_int signed_take_bit_int_eq_self)

text \<open>
  Claim C3, as the code has it. For an integer-typed definition, an \<^verbatim>\<open>int64\<close> result is
  cut to its low 32 bits, read as a signed number: it keeps its value exactly when that
  value fits 32 bits, and wraps around otherwise. A finite \<^verbatim>\<open>float64\<close> result whose
  integer part fits 32 bits loses its fraction (truncation towards zero); it is not
  rounded to the nearest integer.
\<close>

theorem processScoreType_integer_coercion:
  assumes "Type definition = Integer it"
  shows "(\<exists>score v. processScoreType F definition (Int64V i) project = Inr score
            \<and> Score_Value score =
                Score_IntegerValue \<lparr> IntegerValue_Value = v,
                  IntegerValue_MinValue = Integer_MinValue it,
                  IntegerValue_MaxValue = Integer_MaxValue it \<rparr>
            \<and> sint v = signed_take_bit 31 (sint i)
            \<and> (- (2 ^ 31) \<le> sint i \<and> sint i < 2 ^ 31 \<longrightarrow> sint v = sint i))
       \<and> (- (2 ^ 31) \<le> truncate_rat q \<and> truncate_rat q \<le> 2 ^ 31 - 1 \<longrightarrow>
           (\<exists>score v. processScoreType F definition (Float64V (Finite q)) project = Inr score
            \<and> Score_Value score =
                Score_IntegerValue \<lparr> IntegerValue_Value = v,
                  IntegerValue_MinValue = Integer_MinValue it,
                  IntegerValue_MaxValue = Integer_MaxValue it \<rparr>
            \<and> sint v = truncate_rat q))"
proof (intro conjI impI)
  show "\<exists>score v. processScoreType F definition (Int64V i) project = Inr score
            \<and> Score_Value score =
                Score_IntegerValue \<lparr> IntegerValue_Value = v,
                  IntegerValue_MinValue = Integer_MinValue it,
                  IntegerValue_MaxValue = Integer_MaxValue it \<rparr>
            \<and> sint v = signed_take_bit 31 (sint i)
            \<and> (- (2 ^ 31) \<le> sint i \<and> sint i < 2 ^ 31 \<longrightarrow> sint v = sint i)"
    using assms
    by (simp add: processScoreType_def Let_def integer_score_value sint_int32_of_int64
        signed_take_bit_int_eq_self)
next
  assume "- (2 ^ 31) \<le> truncate_rat q \<and> truncate_rat q \<le> 2 ^ 31 - 1"
  then have "sint (int32_of_float64 F (Finite q)) = truncate_rat q"
    by (simp add: sint_int32_of_float64_in_range)
  then show "\<exists>score v. processScoreType F definition (Float64V (Finite q)) project = Inr score
            \<and> Score_Value score =
                Score_IntegerValue \<lparr> IntegerValue_Value = v,
                  IntegerValue_MinValue = Integer_MinValue it,
                  IntegerValue_MaxValue = Integer_MaxValue it \<rparr>
            \<and> sint v = truncate_rat q"
    using assms by (simp add: processScoreType_def Let_def integer_score_value)
qed

lemma truncate_rat_example: "truncate_rat (149 / 2) = 74"
  unfolding truncate_rat_def by code_simp

theorem processScoreType_integer_coercion_witness:
  "Type (example_definition (Integer example_integer_type)) = Integer example_integer_type
   \<and> (\<exists>score v. processScoreType example_float_impl
                   (example_definition (Integer example_integer_type)) (Int64V 74) ''projects/p''
                 = Inr score
            \<and> Score_Value score =
                Score_IntegerValue \<lparr> IntegerValue_Value = v,
                  IntegerValue_MinValue = Integer_MinValue example_integer_type,
                  IntegerValue_MaxValue = Integer_MaxValue example_integer_type \<rparr>
            \<and> sint v = 74)
   \<and> (\<exists>score v. processScoreType example_float_impl
                   (example_definition (Integer example_integer_type))
                   (Float64V (Finite (149 / 2))) ''projects/p''
                 = Inr score
            \<and> Score_Value score =
                Score_IntegerValue \<lparr> IntegerValue_Value = v,
                  IntegerValue_MinValue = Integer_MinValue example_integer_type,
                  IntegerValue_MaxValue = Integer_MaxValue example_integer_type \<rparr>
            \<and> sint v = 74)"
proof -
  have ty: "Type (example_definition (Integer example_integer_type)) = Integer example_integer_type"
    by (simp add: example_definition_def)
  have i: "sint (74 :: 64 word) = 74" by simp
  have s: "signed_take_bit 31 (74 :: int) = 74" by (simp add: signed_take_bit_int_eq_self)
  show ?thesis
    using processScoreType_integer_coercion [OF ty, of example_float_impl 74 "''projects/p''" "149 / 2"]
    by (simp add: ty truncate_rat_example i s)
qed

text \<open>
  The coercion is not to the nearest 32-bit integer: the \<^verbatim>\<open>int64\<close> value \<open>2\<^sup>3\<^sup>1\<close> becomes
  \<open>- 2\<^sup>3\<^sup>1\<close> where the nearest is \<open>2\<^sup>3\<^sup>1 - 1\<close>, and the float \<open>0.75\<close> becomes \<open>0\<close>
  where the nearest is \<open>1\<close>.
\<close>

theorem processScoreType_integer_nearest_counterexample:
  "map_sum id Score_Value
     (processScoreType example_float_impl (example_definition (Integer example_integer_type))
        (Int64V 2147483648) ''projects/p'')
     = Inr (Score_IntegerValue \<lparr> IntegerValue_Value = - 2147483648,
              IntegerValue_MinValue = 0, IntegerValue_MaxValue = 100 \<rparr>)
   \<and> sint (- 2147483648 :: 32 word) = - 2147483648
   \<and> nearest_int32 (of_int (sint (2147483648 :: 64 word))) = 2147483647
   \<and> map_sum id Score_Value
     (processScoreType example_float_impl (example_definition (Integer example_integer_type))
        (Float64V (Finite (3 / 4))) ''projects/p'')
     = Inr (Score_IntegerValue \<lparr> IntegerValue_Value = 0,
              IntegerValue_MinValue = 0, IntegerValue_MaxValue = 100 \<rparr>)
   \<and> nearest_int32 (3 / 4) = 1"
proof (intro conjI)
  show "map_sum id Score_Value
     (processScoreType example_float_impl (example_definition (Integer example_integer_type))
        (Int64V 2147483648) ''projects/p'')
     = Inr (Score_IntegerValue \<lparr> IntegerValue_Value = - 2147483648,
              IntegerValue_MinValue = 0, IntegerValue_MaxValue = 100 \<rparr>)"
    by (simp add: processScoreType_def example_definition_def Let_def integer_score_value
        example_integer_type_def int32_of_int64_def)
  show "sint (- 2147483648 :: 32 word) = - 2147483648" by simp
  show "nearest_int32 (of_int (sint (2147483648 :: 64 word))) = 2147483647"
    by (simp add: nearest_int32_def)
  have "truncate_rat (3 / 4) = 0" unfolding truncate_rat_def by code_simp
  then show "map_sum id Score_Value
     (processScoreType example_float_impl (example_definition (Integer example_integer_type))
        (Float64V (Finite (3 / 4))) ''projects/p'')
     = Inr (Score_IntegerValue \<lparr> IntegerValue_Value = 0,
              IntegerValue_MinValue = 0, IntegerValue_MaxValue = 100 \<rparr>)"
    by (simp add: processScoreType_def example_definition_def Let_def integer_score_value
        example_integer_type_def int32_of_float64_def)
  show "nearest_int32 (3 / 4) = 1"
    unfolding nearest_int32_def round_def by code_simp
qed


text \<open>
  Claim C5. For an integer-typed definition and an \<^verbatim>\<open>int64\<close> or \<^verbatim>\<open>float64\<close> result,
  \<^verbatim>\<open>processScoreType\<close> returns a score; with \<open>v\<close> the coerced value it stores, the severity
  is \<^verbatim>\<open>ALERT\<close> if \<open>v\<close> is below the configured minimum or above the configured maximum,
  and otherwise the severity of the first threshold, in list order, whose range holds
  \<open>v\<close>, or the unspecified default severity if no range holds it.
\<close>

theorem processScoreType_integer_severity:
  assumes "Type definition = Integer it"
    and "scoreValue = Int64V i \<or> scoreValue = Float64V f"
  shows "\<exists>score v. processScoreType F definition scoreValue project = Inr score
     \<and> Score_Value score =
         Score_IntegerValue \<lparr> IntegerValue_Value = v,
           IntegerValue_MinValue = Integer_MinValue it,
           IntegerValue_MaxValue = Integer_MaxValue it \<rparr>
     \<and> Score_Severity score =
         (if sint v < sint (Integer_MinValue it) \<or> sint (Integer_MaxValue it) < sint v
          then Severity_ALERT
          else (case find (\<lambda>t. sint (Range_Min (NumberThreshold_Range t)) \<le> sint v
                              \<and> sint v \<le> sint (Range_Max (NumberThreshold_Range t)))
                       (Integer_Thresholds it) of
                  Some t \<Rightarrow> NumberThreshold_Severity t
                | None \<Rightarrow> SEVERITY_UNSPECIFIED))"
  using assms
  by (auto simp: processScoreType_def Let_def integer_score_severity integer_score_value)

theorem processScoreType_integer_severity_witness:
  "Type (example_definition (Integer example_integer_type)) = Integer example_integer_type
   \<and> (Int64V 70 = Int64V 70 \<or> Int64V 70 = Float64V NaN)
   \<and> (\<exists>score v. processScoreType example_float_impl
                   (example_definition (Integer example_integer_type)) (Int64V 70) ''projects/p''
                 = Inr score
         \<and> Score_Value score =
             Score_IntegerValue \<lparr> IntegerValue_Value = v,
               IntegerValue_MinValue = Integer_MinValue example_integer_type,
               IntegerValue_MaxValue = Integer_MaxValue example_integer_type \<rparr>
         \<and> Score_Severity score =
             (if sint v < sint (Integer_MinValue example_integer_type)
                 \<or> sint (Integer_MaxValue example_integer_type) < sint v
              then Severity_ALERT
              else (case find (\<lambda>t. sint (Range_Min (NumberThreshold_Range t)) \<le> sint v
                                  \<and> sint v \<le> sint (Range_Max (NumberThreshold_Range t)))
                           (Integer_Thresholds example_integer_type) of
                      Some t \<Rightarrow> NumberThreshold_Severity t
                    | None \<Rightarrow> SEVERITY_UNSPECIFIED)))
   \<and> map_sum id Score_Severity
        (processScoreType example_float_impl
           (example_definition (Integer example_integer_type)) (Int64V 70) ''projects/p'')
       = Inr Severity_WARNING
   \<and> map_sum id Score_Severity
        (processScoreType example_float_impl
           (example_definition (Integer example_integer_type)) (Int64V 101) ''projects/p'')
       = Inr Severity_ALERT"
proof -
  have ty: "Type (example_definition (Integer example_integer_type)) = Integer example_integer_type"
    by (simp add: example_definition_def)
  have v: "Int64V 70 = Int64V 70 \<or> Int64V 70 = Float64V NaN"
    by simp
  have e1: "map_sum id Score_Severity
        (processScoreType example_float_impl
           (example_definition (Integer example_integer_type)) (Int64V 70) ''projects/p'')
       = Inr Severity_WARNING"
    by (simp add: processScoreType_def example_definition_def Let_def integer_score_def
        initial_score_def example_integer_type_def int32_of_int64_def)
  have e2: "map_sum id Score_Severity
        (processScoreType example_float_impl
           (example_definition (Integer example_integer_type)) (Int64V 101) ''projects/p'')
       = Inr Severity_ALERT"
    by (simp add: processScoreType_def example_definition_def Let_def integer_score_def
        initial_score_def example_integer_type_def int32_of_int64_def)
  show ?thesis
    using processScoreType_integer_severity [OF ty v, of example_float_impl "''projects/p''"]
      ty v e1 e2
    by blast
qed

lemma find_append_cases:
  "find P (xs @ ys) = (case find P xs of None \<Rightarrow> find P ys | Some x \<Rightarrow> Some x)"
  by (induction xs) simp_all

text \<open>
  The boolean loop has no \<^verbatim>\<open>break\<close>: every matching threshold overwrites the severity, so
  the last threshold of the list whose value equals the result decides.
\<close>

lemma boolean_thresholds_last:
  "boolean_thresholds b ts sev =
     (case find (\<lambda>t. BooleanThreshold_Value t = b) (rev ts) of
        Some t \<Rightarrow> BooleanThreshold_Severity t
      | None \<Rightarrow> sev)"
proof (induction ts arbitrary: sev)
  case Nil
  then show ?case by simp
next
  case (Cons t ts)
  then show ?case
    by (simp add: find_append_cases split: option.splits)
qed

text \<open>
  Claim C4. The claim gives the severity of the first threshold whose value equals the
  result. At a boolean definition with the thresholds \<^verbatim>\<open>(ALERT, true)\<close>, \<^verbatim>\<open>(OK, true)\<close>
  and the result \<^verbatim>\<open>true\<close>, the first matching threshold is \<^verbatim>\<open>(ALERT, true)\<close>, and the
  score \<^verbatim>\<open>processScoreType\<close> returns has the severity \<^verbatim>\<open>OK\<close> of the second one.
\<close>

theorem processScoreType_boolean_duplicate_thresholds:
  "find (\<lambda>t. BooleanThreshold_Value t = True) (Boolean_Thresholds example_boolean_type)
     = Some \<lparr> BooleanThreshold_Severity = Severity_ALERT, BooleanThreshold_Value = True \<rparr>
   \<and> map_sum id Score_Severity
        (processScoreType example_float_impl (example_definition (Boolean example_boolean_type))
           (BoolV True) ''projects/p'')
       = Inr Severity_OK"
  by (simp add: processScoreType_def example_definition_def Let_def boolean_score_def
      initial_score_def example_boolean_type_def)

section \<open>Properties of the scoring engine\<close>

lemma rollup_check_Inr_iff:
  "rollup_check env w r sa ta f = Inr res \<longleftrightarrow>
     (res = processScoreFormula env w f r sa ta \<and> err res = None
      \<and> ReferenceId f \<noteq> [] \<and> CHR ''-'' \<notin> set (ReferenceId f))"
  by (auto simp: rollup_check_def Let_def split: option.splits)

lemma rollup_check_bad_reference:
  "ReferenceId f = [] \<or> CHR ''-'' \<in> set (ReferenceId f)
     \<Longrightarrow> \<exists>e. rollup_check env w r sa ta f = Inl e"
  by (auto simp: rollup_check_def Let_def split: option.splits)

lemma rollup_loop_bad_reference:
  "\<exists>f \<in> set fs. ReferenceId f = [] \<or> CHR ''-'' \<in> set (ReferenceId f)
     \<Longrightarrow> \<exists>e. rollup_loop env w r sa ta fs m u = Inl e"
proof (induction fs arbitrary: m u)
  case Nil
  then show ?case by simp
next
  case (Cons f fs)
  show ?case
  proof (cases "rollup_check env w r sa ta f")
    case (Inl e)
    then show ?thesis by simp
  next
    case (Inr res)
    then have "\<not> (ReferenceId f = [] \<or> CHR ''-'' \<in> set (ReferenceId f))"
      by (simp add: rollup_check_Inr_iff)
    with Cons.prems have "\<exists>f \<in> set fs. ReferenceId f = [] \<or> CHR ''-'' \<in> set (ReferenceId f)"
      by auto
    from Cons.IH [OF this] Inr show ?thesis by simp
  qed
qed

lemma rollup_loop_first_failure:
  "\<forall>g \<in> set pre. \<exists>res. rollup_check env w r sa ta g = Inr res \<Longrightarrow> rollup_check env w r sa ta f = Inl e
     \<Longrightarrow> rollup_loop env w r sa ta (pre @ f # post) m u = Inl e"
proof (induction pre arbitrary: m u)
  case Nil
  then show ?case by simp
next
  case (Cons g pre)
  then show ?case by (cases "rollup_check env w r sa ta g") auto
qed

lemma rollup_loop_all_pass:
  assumes "\<forall>f \<in> set fs. err (processScoreFormula env w f r sa ta) = None
              \<and> ReferenceId f \<noteq> [] \<and> CHR ''-'' \<notin> set (ReferenceId f)"
  shows "rollup_loop env w r sa ta fs m u =
           Inr (m ++ map_of (rev (map (\<lambda>f. (ReferenceId f,
                                   result_value (processScoreFormula env w f r sa ta))) fs)),
                u \<or> (\<exists>f \<in> set fs. needsUpdate (processScoreFormula env w f r sa ta)))"
  using assms
proof (induction fs arbitrary: m u)
  case Nil
  then show ?case by simp
next
  case (Cons f fs)
  have c: "rollup_check env w r sa ta f = Inr (processScoreFormula env w f r sa ta)"
    using Cons.prems by (simp add: rollup_check_Inr_iff)
  have rest: "\<forall>f \<in> set fs. err (processScoreFormula env w f r sa ta) = None
              \<and> ReferenceId f \<noteq> [] \<and> CHR ''-'' \<notin> set (ReferenceId f)"
    using Cons.prems by simp
  have m: "m(ReferenceId f \<mapsto> result_value (processScoreFormula env w f r sa ta))
             ++ map_of (rev (map (\<lambda>f. (ReferenceId f,
                                   result_value (processScoreFormula env w f r sa ta))) fs))
           = m ++ map_of (rev (map (\<lambda>f. (ReferenceId f,
                                   result_value (processScoreFormula env w f r sa ta))) (f # fs)))"
    by (rule ext) (simp add: map_add_def split: option.splits)
  have "rollup_loop env w r sa ta (f # fs) m u =
          rollup_loop env w r sa ta fs
            (m(ReferenceId f \<mapsto> result_value (processScoreFormula env w f r sa ta)))
            (u \<or> needsUpdate (processScoreFormula env w f r sa ta))"
    by (simp add: c)
  also have "\<dots> = Inr (m(ReferenceId f \<mapsto> result_value (processScoreFormula env w f r sa ta))
             ++ map_of (rev (map (\<lambda>f. (ReferenceId f,
                                   result_value (processScoreFormula env w f r sa ta))) fs)),
            (u \<or> needsUpdate (processScoreFormula env w f r sa ta))
              \<or> (\<exists>f \<in> set fs. needsUpdate (processScoreFormula env w f r sa ta)))"
    by (rule Cons.IH [OF rest])
  finally show ?case
    unfolding m by auto
qed

lemma map_of_rev_last_wins:
  assumes "i < length fs"
    and "\<forall>j. i < j \<and> j < length fs \<longrightarrow> k (fs ! j) \<noteq> k (fs ! i)"
  shows "map_of (rev (map (\<lambda>f. (k f, v f)) fs)) (k (fs ! i)) = Some (v (fs ! i))"
  using assms
proof (induction fs rule: rev_induct)
  case Nil
  then show ?case by simp
next
  case (snoc x xs)
  show ?case
  proof (cases "i = length xs")
    case True
    then show ?thesis by simp
  next
    case False
    with snoc.prems have lt: "i < length xs" by simp
    have ne: "k x \<noteq> k (xs ! i)"
      using snoc.prems(2) [rule_format, of "length xs"] lt by (simp add: nth_append)
    have "\<forall>j. i < j \<and> j < length xs \<longrightarrow> k (xs ! j) \<noteq> k (xs ! i)"
    proof (intro allI impI)
      fix j assume "i < j \<and> j < length xs"
      then show "k (xs ! j) \<noteq> k (xs ! i)"
        using snoc.prems(2) [rule_format, of j] lt by (simp add: nth_append)
    qed
    from snoc.IH [OF lt this] ne lt show ?thesis
      by (simp add: nth_append)
  qed
qed

lemma dom_map_of_rev_map:
  "dom (map_of (rev (map (\<lambda>f. (k f, v f)) fs))) = k ` set fs"
  by (simp add: dom_map_of_conv_image_fst image_image)

lemma CalculateScore_takeAction_cases:
  "CalculateScore_takeAction env w defArtifact definition resource =
     (case getArtifact env w
             (ResourceName_String resource @ ''/artifacts/'' @ scoreID (Id definition)) False of
        Inl e \<Rightarrow>
          if status_Code e = NotFound then Inr (None, True)
          else Inl (FailedToFetch
                 (ResourceName_String resource @ ''/artifacts/'' @ scoreID (Id definition)) e)
      | Inr a \<Rightarrow>
          Inr (Some a, UpdateTime a < UpdateTime defArtifact + ResourceUpdateThreshold env))"
  by (simp add: CalculateScore_takeAction_def Let_def definition_updated_def
      updated_after_def GetUpdateTime_AsTime_def split: sum.splits)

text \<open>
  Claim C2. With \<open>fetched\<close> the outcome of fetching the existing score artifact: a fetch
  error other than \<^verbatim>\<open>NotFound\<close> makes \<^verbatim>\<open>CalculateScore\<close> return the error
  \<^verbatim>\<open>failed to fetch artifact\<close> and leaves the world as it was; in every other case the
  decision is taken, and \<^verbatim>\<open>takeAction\<close> is true if and only if the fetch returned
  \<^verbatim>\<open>NotFound\<close>, or the score artifact exists and the update time of the definition
  artifact plus the slack \<^verbatim>\<open>ResourceUpdateThreshold\<close> is after the update time of the score
  artifact.
\<close>

theorem CalculateScore_takeAction_decision:
  assumes "fetched = getArtifact env w
             (ResourceName_String resource @ ''/artifacts/'' @ scoreID (Id definition)) False"
    and "Unmarshal_ScoreDefinition env (Contents defArtifact) = Inr definition"
  shows "(\<forall>e. fetched = Inl e \<and> status_Code e \<noteq> NotFound \<longrightarrow>
            CalculateScore env w defArtifact resource dryRun =
              (Some (FailedToFetch
                 (ResourceName_String resource @ ''/artifacts/'' @ scoreID (Id definition)) e), w))
       \<and> ((\<exists>e. fetched = Inl e \<and> status_Code e \<noteq> NotFound)
          \<or> (\<exists>scoreArtifact takeAction.
                CalculateScore_takeAction env w defArtifact definition resource
                  = Inr (scoreArtifact, takeAction)
                \<and> (takeAction \<longleftrightarrow>
                     (\<exists>e. fetched = Inl e \<and> status_Code e = NotFound)
                     \<or> (\<exists>a. fetched = Inr a
                           \<and> UpdateTime a < UpdateTime defArtifact + ResourceUpdateThreshold env))))"
proof (cases fetched)
  case (Inl e)
  then show ?thesis
    using assms
    by (cases "status_Code e = NotFound")
       (auto simp: CalculateScore_def CalculateScore_takeAction_cases)
next
  case (Inr a)
  then show ?thesis
    using assms by (simp add: CalculateScore_takeAction_cases)
qed

lemma failed_simps:
  "err (failed e) = Some e" "result_value (failed e) = NilV" "needsUpdate (failed e) = False"
  by (simp_all add: failed_def)

text \<open>
  Claim C6. If some inner score formula of a rollup formula has an empty \<^verbatim>\<open>reference_id\<close>
  or one that holds a dash, \<^verbatim>\<open>processRollUpFormula\<close> returns an error, the \<^verbatim>\<open>nil\<close> value
  and no update. If the rollup formula has inner formulas and a rollup expression, every
  \<^verbatim>\<open>reference_id\<close> is valid and no inner formula fails, the loop ends with a map whose
  keys are the reference ids; the result of each inner formula is stored under its
  \<^verbatim>\<open>reference_id\<close> when the loop has processed it, and is what the final map holds there
  unless a later formula has the same \<^verbatim>\<open>reference_id\<close>; and the rollup expression is
  evaluated over that map when an update is required.
\<close>

theorem processRollUpFormula_reference_ids:
  "((\<exists>f \<in> set (ScoreFormulas formula). ReferenceId f = [] \<or> CHR ''-'' \<in> set (ReferenceId f)) \<longrightarrow>
      err (processRollUpFormula env w formula resource scoreArtifact takeAction) \<noteq> None
      \<and> result_value (processRollUpFormula env w formula resource scoreArtifact takeAction) = NilV
      \<and> \<not> needsUpdate (processRollUpFormula env w formula resource scoreArtifact takeAction))
   \<and> (ScoreFormulas formula \<noteq> [] \<and> RollupExpression formula \<noteq> []
       \<and> (\<forall>f \<in> set (ScoreFormulas formula).
             err (processScoreFormula env w f resource scoreArtifact takeAction) = None
             \<and> ReferenceId f \<noteq> [] \<and> CHR ''-'' \<notin> set (ReferenceId f)) \<longrightarrow>
       (\<exists>rollUpMap updateRequired.
          rollup_loop env w resource scoreArtifact takeAction (ScoreFormulas formula)
            Map.empty takeAction = Inr (rollUpMap, updateRequired)
          \<and> dom rollUpMap = ReferenceId ` set (ScoreFormulas formula)
          \<and> (\<forall>i < length (ScoreFormulas formula).
                (\<exists>m u. rollup_loop env w resource scoreArtifact takeAction
                          (take (Suc i) (ScoreFormulas formula)) Map.empty takeAction = Inr (m, u)
                       \<and> m (ReferenceId (ScoreFormulas formula ! i)) =
                           Some (result_value (processScoreFormula env w
                                   (ScoreFormulas formula ! i) resource scoreArtifact takeAction)))
                \<and> ((\<forall>j. i < j \<and> j < length (ScoreFormulas formula) \<longrightarrow>
                         ReferenceId (ScoreFormulas formula ! j)
                           \<noteq> ReferenceId (ScoreFormulas formula ! i)) \<longrightarrow>
                     rollUpMap (ReferenceId (ScoreFormulas formula ! i)) =
                       Some (result_value (processScoreFormula env w
                               (ScoreFormulas formula ! i) resource scoreArtifact takeAction))))
          \<and> processRollUpFormula env w formula resource scoreArtifact takeAction =
              (if updateRequired then
                 (case evaluateScoreExpression env (RollupExpression formula) rollUpMap of
                    Inl e \<Rightarrow> \<lparr> result_value = NilV, needsUpdate = False, err = Some e \<rparr>
                  | Inr v \<Rightarrow> \<lparr> result_value = v, needsUpdate = True, err = None \<rparr>)
               else \<lparr> result_value = NilV, needsUpdate = False, err = None \<rparr>)))"
proof (intro conjI impI)
  assume bad: "\<exists>f \<in> set (ScoreFormulas formula). ReferenceId f = [] \<or> CHR ''-'' \<in> set (ReferenceId f)"
  obtain e where "rollup_loop env w resource scoreArtifact takeAction (ScoreFormulas formula)
                    Map.empty takeAction = Inl e"
    using rollup_loop_bad_reference [OF bad] by blast
  then have "\<exists>e'. processRollUpFormula env w formula resource scoreArtifact takeAction = failed e'"
    by (auto simp: processRollUpFormula_def)
  then obtain e' where f: "processRollUpFormula env w formula resource scoreArtifact takeAction = failed e'"
    by blast
  show "err (processRollUpFormula env w formula resource scoreArtifact takeAction) \<noteq> None"
    by (simp add: f failed_simps)
  show "result_value (processRollUpFormula env w formula resource scoreArtifact takeAction) = NilV"
    by (simp add: f failed_simps)
  show "\<not> needsUpdate (processRollUpFormula env w formula resource scoreArtifact takeAction)"
    by (simp add: f failed_simps)
next
  let ?fs = "ScoreFormulas formula"
  let ?g = "\<lambda>f. (ReferenceId f,
                 result_value (processScoreFormula env w f resource scoreArtifact takeAction))"
  assume a: "?fs \<noteq> [] \<and> RollupExpression formula \<noteq> []
       \<and> (\<forall>f \<in> set ?fs.
             err (processScoreFormula env w f resource scoreArtifact takeAction) = None
             \<and> ReferenceId f \<noteq> [] \<and> CHR ''-'' \<notin> set (ReferenceId f))"
  then have ok: "\<forall>f \<in> set ?fs.
             err (processScoreFormula env w f resource scoreArtifact takeAction) = None
             \<and> ReferenceId f \<noteq> [] \<and> CHR ''-'' \<notin> set (ReferenceId f)"
    by blast
  let ?m = "map_of (rev (map ?g ?fs))"
  let ?u = "takeAction \<or> (\<exists>f \<in> set ?fs.
              needsUpdate (processScoreFormula env w f resource scoreArtifact takeAction))"
  have loop: "rollup_loop env w resource scoreArtifact takeAction ?fs Map.empty takeAction
                = Inr (?m, ?u)"
    using rollup_loop_all_pass [OF ok, of Map.empty takeAction] by simp
  have d: "dom ?m = ReferenceId ` set ?fs"
    by (rule dom_map_of_rev_map)
  have each: "\<forall>i < length ?fs.
                (\<exists>m u. rollup_loop env w resource scoreArtifact takeAction
                          (take (Suc i) ?fs) Map.empty takeAction = Inr (m, u)
                       \<and> m (ReferenceId (?fs ! i)) =
                           Some (result_value (processScoreFormula env w
                                   (?fs ! i) resource scoreArtifact takeAction)))
                \<and> ((\<forall>j. i < j \<and> j < length ?fs \<longrightarrow>
                         ReferenceId (?fs ! j) \<noteq> ReferenceId (?fs ! i)) \<longrightarrow>
                     ?m (ReferenceId (?fs ! i)) =
                       Some (result_value (processScoreFormula env w
                               (?fs ! i) resource scoreArtifact takeAction)))"
  proof (intro allI impI conjI)
    fix i assume i: "i < length ?fs"
    let ?pre = "take (Suc i) ?fs"
    have okp: "\<forall>f \<in> set ?pre.
             err (processScoreFormula env w f resource scoreArtifact takeAction) = None
             \<and> ReferenceId f \<noteq> [] \<and> CHR ''-'' \<notin> set (ReferenceId f)"
      using ok by (meson in_set_takeD)
    have ip: "i < length ?pre" using i by simp
    have nth: "?pre ! i = ?fs ! i" by simp
    have last: "\<forall>j. i < j \<and> j < length ?pre \<longrightarrow> ReferenceId (?pre ! j) \<noteq> ReferenceId (?pre ! i)"
      using i by auto
    have "map_of (rev (map ?g ?pre)) (ReferenceId (?pre ! i))
            = Some (result_value (processScoreFormula env w (?pre ! i) resource scoreArtifact takeAction))"
      by (rule map_of_rev_last_wins [OF ip last])
    then have "map_of (rev (map ?g ?pre)) (ReferenceId (?fs ! i))
            = Some (result_value (processScoreFormula env w (?fs ! i) resource scoreArtifact takeAction))"
      by (simp only: nth)
    with rollup_loop_all_pass [OF okp, of Map.empty takeAction]
    show "\<exists>m u. rollup_loop env w resource scoreArtifact takeAction
                          ?pre Map.empty takeAction = Inr (m, u)
                       \<and> m (ReferenceId (?fs ! i)) =
                           Some (result_value (processScoreFormula env w
                                   (?fs ! i) resource scoreArtifact takeAction))"
      by simp
  next
    fix i assume i: "i < length ?fs"
      and "\<forall>j. i < j \<and> j < length ?fs \<longrightarrow> ReferenceId (?fs ! j) \<noteq> ReferenceId (?fs ! i)"
    then show "?m (ReferenceId (?fs ! i)) =
                       Some (result_value (processScoreFormula env w
                               (?fs ! i) resource scoreArtifact takeAction))"
      by (rule map_of_rev_last_wins)
  qed
  have res: "processRollUpFormula env w formula resource scoreArtifact takeAction =
              (if ?u then
                 (case evaluateScoreExpression env (RollupExpression formula) ?m of
                    Inl e \<Rightarrow> \<lparr> result_value = NilV, needsUpdate = False, err = Some e \<rparr>
                  | Inr v \<Rightarrow> \<lparr> result_value = v, needsUpdate = True, err = None \<rparr>)
               else \<lparr> result_value = NilV, needsUpdate = False, err = None \<rparr>)"
  proof -
    define M where "M = ?m"
    define U where "U = ?u"
    have l: "rollup_loop env w resource scoreArtifact takeAction ?fs Map.empty takeAction
                = Inr (M, U)"
      unfolding M_def U_def by (rule loop)
    have "processRollUpFormula env w formula resource scoreArtifact takeAction =
              (if U then
                 (case evaluateScoreExpression env (RollupExpression formula) M of
                    Inl e \<Rightarrow> \<lparr> result_value = NilV, needsUpdate = False, err = Some e \<rparr>
                  | Inr v \<Rightarrow> \<lparr> result_value = v, needsUpdate = True, err = None \<rparr>)
               else \<lparr> result_value = NilV, needsUpdate = False, err = None \<rparr>)"
      using a by (simp add: processRollUpFormula_def l failed_def split: sum.splits)
    then show ?thesis
      unfolding M_def U_def .
  qed
  from loop d each res
  show "\<exists>rollUpMap updateRequired.
          rollup_loop env w resource scoreArtifact takeAction ?fs
            Map.empty takeAction = Inr (rollUpMap, updateRequired)
          \<and> dom rollUpMap = ReferenceId ` set ?fs
          \<and> (\<forall>i < length ?fs.
                (\<exists>m u. rollup_loop env w resource scoreArtifact takeAction
                          (take (Suc i) ?fs) Map.empty takeAction = Inr (m, u)
                       \<and> m (ReferenceId (?fs ! i)) =
                           Some (result_value (processScoreFormula env w
                                   (?fs ! i) resource scoreArtifact takeAction)))
                \<and> ((\<forall>j. i < j \<and> j < length ?fs \<longrightarrow>
                         ReferenceId (?fs ! j) \<noteq> ReferenceId (?fs ! i)) \<longrightarrow>
                     rollUpMap (ReferenceId (?fs ! i)) =
                       Some (result_value (processScoreFormula env w
                               (?fs ! i) resource scoreArtifact takeAction))))
          \<and> processRollUpFormula env w formula resource scoreArtifact takeAction =
              (if updateRequired then
                 (case evaluateScoreExpression env (RollupExpression formula) rollUpMap of
                    Inl e \<Rightarrow> \<lparr> result_value = NilV, needsUpdate = False, err = Some e \<rparr>
                  | Inr v \<Rightarrow> \<lparr> result_value = v, needsUpdate = True, err = None \<rparr>)
               else \<lparr> result_value = NilV, needsUpdate = False, err = None \<rparr>)"
    by blast
qed

lemma uploadScore_calls:
  "set_calls (snd (uploadScore env w resource score)) = set_calls w
   \<or> (\<exists>a. set_calls (snd (uploadScore env w resource score)) = set_calls w @ [a])"
  by (simp add: uploadScore_def Let_def split: sum.splits option.splits)

lemma CalculateScore_calls:
  "set_calls (snd (CalculateScore env w defArtifact resource dryRun)) = set_calls w
   \<or> (\<exists>a. set_calls (snd (CalculateScore env w defArtifact resource dryRun)) = set_calls w @ [a])"
  using uploadScore_calls [of env w resource]
  by (simp add: CalculateScore_def Let_def split: sum.splits option.splits prod.splits)

lemma processRollUpFormula_first_failure:
  assumes "RollupExpression rf \<noteq> []"
    and "ScoreFormulas rf = pre @ f # post"
    and "\<forall>g \<in> set pre. \<exists>res. rollup_check env w r sa ta g = Inr res"
    and "rollup_check env w r sa ta f = Inl e"
  shows "processRollUpFormula env w rf r sa ta = failed e"
  using assms rollup_loop_first_failure [OF assms(3) assms(4), of post Map.empty ta]
  by (simp add: processRollUpFormula_def)

lemma rollup_check_processing_error:
  "rollup_check env w r sa ta f = Inl e \<Longrightarrow> err (processScoreFormula env w f r sa ta) = Some e'
     \<Longrightarrow> e = ErrorProcessingScoreFormulas e'"
  by (simp add: rollup_check_def Let_def)

text \<open>
  Claim C7. Once the definition is decoded and \<^verbatim>\<open>takeAction\<close> is decided: whenever
  \<^verbatim>\<open>processFormula\<close> gives an error, \<^verbatim>\<open>CalculateScore\<close> returns that error and the world
  is as it was, so \<^verbatim>\<open>SetArtifact\<close> has not been called. For a rollup formula with a rollup
  expression, if every inner formula before \<open>f\<close> passes and \<open>f\<close> is the first to fail, the
  error returned is the one of \<open>f\<close> (the error of its evaluation under the prefix
  \<^verbatim>\<open>error processing rollup_formula.score_formulas\<close>, or the complaint about its
  \<^verbatim>\<open>reference_id\<close>). In every run \<^verbatim>\<open>SetArtifact\<close> is called at most once, and only when
  the formula evaluated without error.
\<close>

theorem CalculateScore_formula_error:
  assumes "Unmarshal_ScoreDefinition env (Contents defArtifact) = Inr definition"
    and "CalculateScore_takeAction env w defArtifact definition resource
           = Inr (scoreArtifact, takeAction)"
  shows "(\<forall>e. err (processFormula env w definition resource scoreArtifact takeAction) = Some e \<longrightarrow>
            CalculateScore env w defArtifact resource dryRun = (Some e, w))
       \<and> (\<forall>rf pre f post e.
             Formula definition = ScoreDefinition_RollupFormula rf
             \<and> RollupExpression rf \<noteq> []
             \<and> ScoreFormulas rf = pre @ f # post
             \<and> (\<forall>g \<in> set pre. \<exists>res. rollup_check env w resource scoreArtifact takeAction g = Inr res)
             \<and> rollup_check env w resource scoreArtifact takeAction f = Inl e \<longrightarrow>
             CalculateScore env w defArtifact resource dryRun = (Some e, w)
             \<and> (\<forall>e'. err (processScoreFormula env w f resource scoreArtifact takeAction) = Some e'
                       \<longrightarrow> e = ErrorProcessingScoreFormulas e'))
       \<and> (set_calls (snd (CalculateScore env w defArtifact resource dryRun)) = set_calls w
          \<or> (\<exists>a. set_calls (snd (CalculateScore env w defArtifact resource dryRun))
                    = set_calls w @ [a]
                  \<and> err (processFormula env w definition resource scoreArtifact takeAction) = None))"
proof (intro conjI allI impI)
  fix e
  assume "err (processFormula env w definition resource scoreArtifact takeAction) = Some e"
  then show "CalculateScore env w defArtifact resource dryRun = (Some e, w)"
    using assms by (simp add: CalculateScore_def)
next
  fix rf pre f post e
  assume a: "Formula definition = ScoreDefinition_RollupFormula rf
             \<and> RollupExpression rf \<noteq> []
             \<and> ScoreFormulas rf = pre @ f # post
             \<and> (\<forall>g \<in> set pre. \<exists>res. rollup_check env w resource scoreArtifact takeAction g = Inr res)
             \<and> rollup_check env w resource scoreArtifact takeAction f = Inl e"
  then have "processRollUpFormula env w rf resource scoreArtifact takeAction = failed e"
    by (intro processRollUpFormula_first_failure [of rf pre f post]) simp_all
  with a have "err (processFormula env w definition resource scoreArtifact takeAction) = Some e"
    by (simp add: processFormula_def failed_def)
  then show "CalculateScore env w defArtifact resource dryRun = (Some e, w)"
    using assms by (simp add: CalculateScore_def)
next
  fix rf pre f post e e'
  assume "Formula definition = ScoreDefinition_RollupFormula rf
             \<and> RollupExpression rf \<noteq> []
             \<and> ScoreFormulas rf = pre @ f # post
             \<and> (\<forall>g \<in> set pre. \<exists>res. rollup_check env w resource scoreArtifact takeAction g = Inr res)
             \<and> rollup_check env w resource scoreArtifact takeAction f = Inl e"
    and "err (processScoreFormula env w f resource scoreArtifact takeAction) = Some e'"
  then show "e = ErrorProcessingScoreFormulas e'"
    using rollup_check_processing_error by blast
next
  show "set_calls (snd (CalculateScore env w defArtifact resource dryRun)) = set_calls w
          \<or> (\<exists>a. set_calls (snd (CalculateScore env w defArtifact resource dryRun))
                    = set_calls w @ [a]
                  \<and> err (processFormula env w definition resource scoreArtifact takeAction) = None)"
  proof (cases "err (processFormula env w definition resource scoreArtifact takeAction)")
    case None
    then show ?thesis
      using CalculateScore_calls [of env w defArtifact resource dryRun] by simp
  next
    case (Some e)
    then have "CalculateScore env w defArtifact resource dryRun = (Some e, w)"
      using assms by (simp add: CalculateScore_def)
    then show ?thesis by simp
  qed
qed

lemma example_fetch_score:
  "getArtifact example_env example_world
     (ResourceName_String example_resource @ ''/artifacts/'' @ scoreID ''lint-error'') False
     = Inr example_score_artifact"
  by (simp add: getArtifact_def example_env_def example_world_def example_resource_def
      scoreID_def example_score_artifact_def)

lemma example_fetch_down:
  "getArtifact example_env (example_world\<lparr> GetArtifact := (\<lambda>n. Inl (StatusError Unavailable n)) \<rparr>)
     (ResourceName_String example_resource @ ''/artifacts/'' @ scoreID ''lint-error'') False
     = Inl (StatusError Unavailable
              ''projects/p/locations/global/apis/a/artifacts/score-lint-error'')"
  by (simp add: getArtifact_def example_env_def example_world_def example_resource_def
      scoreID_def)

lemma example_unmarshal_good:
  "Unmarshal_ScoreDefinition example_env (Contents (example_defArtifact ''good'' t))
     = Inr (example_rollup_definition
              [example_formula ''lint'' ''a'', example_formula ''style'' ''b''])"
  by (simp add: example_env_def example_defArtifact_def)

lemma example_unmarshal_bad:
  "Unmarshal_ScoreDefinition example_env (Contents (example_defArtifact ''bad'' t))
     = Inr (example_rollup_definition
              [example_formula ''lint'' ''a'', example_formula ''absent'' ''b'',
               example_formula ''style'' ''c-d''])"
  by (simp add: example_env_def example_defArtifact_def)

lemma example_Id: "Id (example_rollup_definition fs) = ''lint-error''"
  by (simp add: example_rollup_definition_def)

theorem CalculateScore_takeAction_decision_witness:
  "CalculateScore_takeAction example_env example_world (example_defArtifact ''good'' 4500000000)
     (example_rollup_definition
        [example_formula ''lint'' ''a'', example_formula ''style'' ''b''])
     example_resource
     = Inr (Some example_score_artifact, True)
   \<and> CalculateScore_takeAction example_env example_world (example_defArtifact ''good'' 3500000000)
     (example_rollup_definition
        [example_formula ''lint'' ''a'', example_formula ''style'' ''b''])
     example_resource
     = Inr (Some example_score_artifact, False)
   \<and> CalculateScore example_env
        (example_world\<lparr> GetArtifact := (\<lambda>n. Inl (StatusError Unavailable n)) \<rparr>)
        (example_defArtifact ''good'' 4500000000) example_resource False
     = (Some (FailedToFetch ''projects/p/locations/global/apis/a/artifacts/score-lint-error''
               (StatusError Unavailable
                  ''projects/p/locations/global/apis/a/artifacts/score-lint-error'')),
        example_world\<lparr> GetArtifact := (\<lambda>n. Inl (StatusError Unavailable n)) \<rparr>)"
proof -
  let ?D = "example_rollup_definition
              [example_formula ''lint'' ''a'', example_formula ''style'' ''b'']"
  let ?down = "example_world\<lparr> GetArtifact := (\<lambda>n. Inl (StatusError Unavailable n)) \<rparr>"
  have f1: "Inr example_score_artifact = getArtifact example_env example_world
             (ResourceName_String example_resource @ ''/artifacts/'' @ scoreID (Id ?D)) False"
    by (simp only: example_Id example_fetch_score)
  have f2: "Inl (StatusError Unavailable
              ''projects/p/locations/global/apis/a/artifacts/score-lint-error'')
            = getArtifact example_env ?down
             (ResourceName_String example_resource @ ''/artifacts/'' @ scoreID (Id ?D)) False"
    by (simp only: example_Id example_fetch_down)
  have c1: "CalculateScore_takeAction example_env example_world
              (example_defArtifact ''good'' 4500000000) ?D example_resource
            = Inr (Some example_score_artifact, True)"
    by (simp add: CalculateScore_takeAction_cases getArtifact_def example_env_def
        example_world_def example_resource_def scoreID_def example_rollup_definition_def
        example_score_artifact_def example_defArtifact_def)
  have c2: "CalculateScore_takeAction example_env example_world
              (example_defArtifact ''good'' 3500000000) ?D example_resource
            = Inr (Some example_score_artifact, False)"
    by (simp add: CalculateScore_takeAction_cases getArtifact_def example_env_def
        example_world_def example_resource_def scoreID_def example_rollup_definition_def
        example_score_artifact_def example_defArtifact_def)
  have c3: "CalculateScore example_env ?down
              (example_defArtifact ''good'' 4500000000) example_resource False
     = (Some (FailedToFetch ''projects/p/locations/global/apis/a/artifacts/score-lint-error''
               (StatusError Unavailable
                  ''projects/p/locations/global/apis/a/artifacts/score-lint-error'')), ?down)"
    by (simp add: CalculateScore_def CalculateScore_takeAction_cases getArtifact_def
        example_env_def example_world_def example_resource_def scoreID_def
        example_rollup_definition_def example_defArtifact_def)
  show ?thesis
    using CalculateScore_takeAction_decision
            [OF f1 example_unmarshal_good [of 4500000000], where dryRun = False]
      CalculateScore_takeAction_decision
            [OF f1 example_unmarshal_good [of 3500000000], where dryRun = False]
      CalculateScore_takeAction_decision
            [OF f2 example_unmarshal_good [of 4500000000], where dryRun = False]
      c1 c2 c3
    by simp
qed

lemma example_processScoreFormula:
  "processScoreFormula example_env example_world (example_formula ''lint'' refId)
     example_resource sa True
     = \<lparr> result_value = Int64V 3, needsUpdate = True, err = None \<rparr>"
  "processScoreFormula example_env example_world (example_formula ''style'' refId)
     example_resource sa True
     = \<lparr> result_value = Int64V 5, needsUpdate = True, err = None \<rparr>"
  "processScoreFormula example_env example_world (example_formula ''absent'' refId)
     example_resource sa True
     = failed (FailedToFetch ''projects/p/locations/global/apis/a/artifacts/absent''
         (StatusError NotFound ''projects/p/locations/global/apis/a/artifacts/absent''))"
  by (simp_all add: processScoreFormula_def example_env_def example_world_def
      example_formula_def example_resource_def getArtifact_def Let_def)

lemma example_ReferenceId: "ReferenceId (example_formula a r) = r"
  by (simp add: example_formula_def)

theorem processRollUpFormula_reference_ids_witness:
  "(\<exists>f \<in> set (ScoreFormulas (example_rollup
                  [example_formula ''lint'' ''a'', example_formula ''style'' ''c-d''])).
      ReferenceId f = [] \<or> CHR ''-'' \<in> set (ReferenceId f))
   \<and> processRollUpFormula example_env example_world
        (example_rollup [example_formula ''lint'' ''a'', example_formula ''style'' ''c-d''])
        example_resource None True
       = \<lparr> result_value = NilV, needsUpdate = False,
           err = Some (InvalidReferenceId (example_formula ''style'' ''c-d'')) \<rparr>
   \<and> processRollUpFormula example_env example_world
        (example_rollup [example_formula ''lint'' ''a'', example_formula ''style'' ''b''])
        example_resource None True
       = \<lparr> result_value = Int64V 3, needsUpdate = True, err = None \<rparr>
   \<and> rollup_loop example_env example_world example_resource None True
        [example_formula ''lint'' ''a'', example_formula ''style'' ''b''] Map.empty True
       = Inr ([''a'' \<mapsto> Int64V 3, ''b'' \<mapsto> Int64V 5], True)"
proof -
  let ?bad = "example_rollup [example_formula ''lint'' ''a'', example_formula ''style'' ''c-d'']"
  let ?good = "example_rollup [example_formula ''lint'' ''a'', example_formula ''style'' ''b'']"
  have h1: "\<exists>f \<in> set (ScoreFormulas ?bad). ReferenceId f = [] \<or> CHR ''-'' \<in> set (ReferenceId f)"
    by (simp add: example_rollup_def example_ReferenceId)
  have h2: "ScoreFormulas ?good \<noteq> [] \<and> RollupExpression ?good \<noteq> []
       \<and> (\<forall>f \<in> set (ScoreFormulas ?good).
             err (processScoreFormula example_env example_world f example_resource None True) = None
             \<and> ReferenceId f \<noteq> [] \<and> CHR ''-'' \<notin> set (ReferenceId f))"
    by (simp add: example_rollup_def example_ReferenceId example_processScoreFormula)
  have c1: "processRollUpFormula example_env example_world ?bad example_resource None True
       = \<lparr> result_value = NilV, needsUpdate = False,
           err = Some (InvalidReferenceId (example_formula ''style'' ''c-d'')) \<rparr>"
    by (simp add: processRollUpFormula_def example_rollup_def rollup_check_def
        example_processScoreFormula example_ReferenceId failed_def)
  have c3: "rollup_loop example_env example_world example_resource None True
        [example_formula ''lint'' ''a'', example_formula ''style'' ''b''] Map.empty True
       = Inr ([''a'' \<mapsto> Int64V 3, ''b'' \<mapsto> Int64V 5], True)"
    by (simp add: rollup_check_def example_processScoreFormula example_ReferenceId)
  have c2: "processRollUpFormula example_env example_world ?good example_resource None True
       = \<lparr> result_value = Int64V 3, needsUpdate = True, err = None \<rparr>"
  proof -
    have sf: "ScoreFormulas ?good = [example_formula ''lint'' ''a'', example_formula ''style'' ''b'']"
      "RollupExpression ?good = ''a''"
      by (simp_all add: example_rollup_def)
    have ev: "evaluateScoreExpression example_env ''a'' [''a'' \<mapsto> Int64V 3, ''b'' \<mapsto> Int64V 5]
                = Inr (Int64V 3)"
      by (simp add: example_env_def)
    show ?thesis
      unfolding processRollUpFormula_def sf c3 by (simp add: ev)
  qed
  from processRollUpFormula_reference_ids
         [of ?bad example_env example_world example_resource None True]
  have "err (processRollUpFormula example_env example_world ?bad example_resource None True)
          \<noteq> None"
    using h1 by blast
  moreover
  from processRollUpFormula_reference_ids
         [of ?good example_env example_world example_resource None True]
  have "\<exists>rollUpMap updateRequired.
          rollup_loop example_env example_world example_resource None True
            (ScoreFormulas ?good) Map.empty True = Inr (rollUpMap, updateRequired)
          \<and> dom rollUpMap = ReferenceId ` set (ScoreFormulas ?good)"
    using h2 by blast
  ultimately show ?thesis
    using h1 c1 c2 c3 by simp
qed

theorem CalculateScore_formula_error_witness:
  "Unmarshal_ScoreDefinition example_env (Contents (example_defArtifact ''bad'' 4500000000))
     = Inr (example_rollup_definition
              [example_formula ''lint'' ''a'', example_formula ''absent'' ''b'',
               example_formula ''style'' ''c-d''])
   \<and> CalculateScore_takeAction example_env example_world (example_defArtifact ''bad'' 4500000000)
       (example_rollup_definition
              [example_formula ''lint'' ''a'', example_formula ''absent'' ''b'',
               example_formula ''style'' ''c-d''])
       example_resource
     = Inr (Some example_score_artifact, True)
   \<and> CalculateScore example_env example_world (example_defArtifact ''bad'' 4500000000)
       example_resource False
     = (Some (ErrorProcessingScoreFormulas
               (FailedToFetch ''projects/p/locations/global/apis/a/artifacts/absent''
                  (StatusError NotFound ''projects/p/locations/global/apis/a/artifacts/absent''))),
        example_world)"
proof -
  let ?D = "example_rollup_definition
              [example_formula ''lint'' ''a'', example_formula ''absent'' ''b'',
               example_formula ''style'' ''c-d'']"
  let ?rf = "example_rollup
              [example_formula ''lint'' ''a'', example_formula ''absent'' ''b'',
               example_formula ''style'' ''c-d'']"
  let ?e = "ErrorProcessingScoreFormulas
               (FailedToFetch ''projects/p/locations/global/apis/a/artifacts/absent''
                  (StatusError NotFound ''projects/p/locations/global/apis/a/artifacts/absent''))"
  have h1: "Unmarshal_ScoreDefinition example_env (Contents (example_defArtifact ''bad'' 4500000000))
     = Inr ?D"
    by (rule example_unmarshal_bad)
  have h2: "CalculateScore_takeAction example_env example_world
              (example_defArtifact ''bad'' 4500000000) ?D example_resource
            = Inr (Some example_score_artifact, True)"
    by (simp add: CalculateScore_takeAction_cases getArtifact_def example_env_def
        example_world_def example_resource_def scoreID_def example_rollup_definition_def
        example_score_artifact_def example_defArtifact_def)
  have h3: "Formula ?D = ScoreDefinition_RollupFormula ?rf
             \<and> RollupExpression ?rf \<noteq> []
             \<and> ScoreFormulas ?rf = [example_formula ''lint'' ''a'']
                  @ example_formula ''absent'' ''b'' # [example_formula ''style'' ''c-d'']
             \<and> (\<forall>g \<in> set [example_formula ''lint'' ''a''].
                   \<exists>res. rollup_check example_env example_world example_resource
                            (Some example_score_artifact) True g = Inr res)
             \<and> rollup_check example_env example_world example_resource
                  (Some example_score_artifact) True (example_formula ''absent'' ''b'') = Inl ?e"
    by (simp add: example_rollup_definition_def example_rollup_def rollup_check_def
        example_processScoreFormula example_ReferenceId failed_def)
  from CalculateScore_formula_error [OF h1 h2, where dryRun = False] h3
  have "CalculateScore example_env example_world (example_defArtifact ''bad'' 4500000000)
          example_resource False = (Some ?e, example_world)"
    by blast
  with h1 h2 show ?thesis by simp
qed

section \<open>Properties of the action planner\<close>

lemma accumulate_bound:
  "length actions \<le> maxActions \<Longrightarrow> length (accumulate maxActions actions new) \<le> maxActions"
  by (induction new arbitrary: actions) auto

lemma plan_entries_bound:
  "length actions \<le> maxActions
     \<Longrightarrow> length (plan_entries entry_actions projectID maxActions actions gs) \<le> maxActions"
  by (induction gs arbitrary: actions) (auto simp: accumulate_bound)

text \<open>
  Claim C1. For every manifest, project and cap, and whatever the actions of the single
  entries are, the plan \<^verbatim>\<open>ProcessManifest\<close> returns has at most \<^verbatim>\<open>maxActions\<close> actions.
\<close>

theorem ProcessManifest_at_most_maxActions:
  "length (ProcessManifest entry_actions projectID manifest maxActions) \<le> maxActions"
  by (simp add: ProcessManifest_def plan_entries_bound)

text \<open>Scenario 5 of the spec: three candidate actions and a cap of two.\<close>

lemma ProcessManifest_example:
  "map Command (ProcessManifest example_entry_actions ''p'' example_manifest 2)
     = [''compute 1.0.0'', ''compute 1.1.0'']"
  "length (ProcessManifest example_entry_actions ''p'' example_manifest 4) = 3"
  by code_simp+


section \<open>Properties of the export\<close>

text \<open>
  Claim C8. An empty recommended version (or deployment) gives the empty string and no
  error. A non-empty one that parses as a full version (deployment) name gives the bare
  version (deployment) ID if the rendered name of its API equals that of the exported API,
  and the input string unchanged otherwise; where the ID differs from the input, as it
  does for every full name, the ID is returned exactly when the APIs are equal.
\<close>

theorem relativeVersionName_relative:
  "relativeVersionName N apiName [] = Inr []
   \<and> relativeDeploymentName N apiName [] = Inr []
   \<and> (version \<noteq> [] \<and> ParseVersion N version = Inr versionName \<longrightarrow>
        relativeVersionName N apiName version =
          Inr (if Api_String N (Version_Api versionName) = Api_String N apiName
               then VersionID versionName else version)
        \<and> (VersionID versionName \<noteq> version \<longrightarrow>
             (relativeVersionName N apiName version = Inr (VersionID versionName)
                \<longleftrightarrow> Api_String N (Version_Api versionName) = Api_String N apiName)))
   \<and> (deployment \<noteq> [] \<and> ParseDeployment N deployment = Inr deploymentName \<longrightarrow>
        relativeDeploymentName N apiName deployment =
          Inr (if Api_String N (Deployment_Api deploymentName) = Api_String N apiName
               then DeploymentID deploymentName else deployment)
        \<and> (DeploymentID deploymentName \<noteq> deployment \<longrightarrow>
             (relativeDeploymentName N apiName deployment = Inr (DeploymentID deploymentName)
                \<longleftrightarrow> Api_String N (Deployment_Api deploymentName) = Api_String N apiName)))"
  by (auto simp: relativeVersionName_def relativeDeploymentName_def)

text \<open>
  With the parser after the grammar of the spec, the ID of a parsed name is shorter than
  the name, so the side condition of the last part always holds.
\<close>

lemma split_on_not_Nil: "split_on c s \<noteq> []"
  by (induction s) (auto split: list.splits)

lemma split_on_length:
  "length (concat (split_on c s)) + length (split_on c s) = Suc (length s)"
proof (induction s)
  case Nil
  then show ?case by simp
next
  case (Cons x xs)
  then show ?case
    using split_on_not_Nil [of c xs] by (cases "split_on c xs") auto
qed

lemma global_ParseVersion_id_differs:
  assumes "global_ParseVersion name = Inr v"
  shows "VersionID v \<noteq> name"
proof -
  from assms obtain k1 p k2 l k3 a k4 where
    s: "split_on CHR ''/'' name = [k1, p, k2, l, k3, a, k4, VersionID v]"
    by (auto simp: global_ParseVersion_def split: list.splits if_splits)
  from split_on_length [of "CHR ''/''" name] s
  have "length (VersionID v) < length name" by simp
  then show ?thesis by auto
qed

lemma global_ParseDeployment_id_differs:
  assumes "global_ParseDeployment name = Inr d"
  shows "DeploymentID d \<noteq> name"
proof -
  from assms obtain k1 p k2 l k3 a k4 where
    s: "split_on CHR ''/'' name = [k1, p, k2, l, k3, a, k4, DeploymentID d]"
    by (auto simp: global_ParseDeployment_def split: list.splits if_splits)
  from split_on_length [of "CHR ''/''" name] s
  have "length (DeploymentID d) < length name" by simp
  then show ?thesis by auto
qed

text \<open>What the handler of \<^verbatim>\<open>collectChildArtifacts\<close> keeps of a message, and what it logs.\<close>

lemma collectChildArtifacts_handler_step:
  "collectChildArtifacts_handler env m (artifacts, lg) =
     (None,
      (artifacts @ (case newArtifact env m of
                 Inl e \<Rightarrow> []
               | Inr a \<Rightarrow>
                   if Kind (Artifact_Header a) = ''Artifact'' then []
                   else [a\<lparr> Artifact_Header :=
                           (Artifact_Header a)\<lparr> ApiVersion := [],
                             Metadata := (Metadata (Artifact_Header a))\<lparr> Parent := [] \<rparr> \<rparr> \<rparr>]),
       lg @ (case newArtifact env m of
                 Inl e \<Rightarrow> [SkippingBecause (Name m) e]
               | Inr a \<Rightarrow> if Kind (Artifact_Header a) = ''Artifact'' then [Skipping (Name m)] else [])))"
  by (simp add: collectChildArtifacts_handler_def Let_def split: sum.splits)

lemma collectChildArtifacts_loop:
  "list_with_handler (collectChildArtifacts_handler env) messages final (artifacts, lg) =
     (final,
      (artifacts @ List.map_filter
         (\<lambda>m. case newArtifact env m of
                 Inl e \<Rightarrow> None
               | Inr a \<Rightarrow>
                   if Kind (Artifact_Header a) = ''Artifact'' then None
                   else Some (a\<lparr> Artifact_Header :=
                           (Artifact_Header a)\<lparr> ApiVersion := [],
                             Metadata := (Metadata (Artifact_Header a))\<lparr> Parent := [] \<rparr> \<rparr> \<rparr>))
         messages,
       lg @ concat (map
         (\<lambda>m. case newArtifact env m of
                 Inl e \<Rightarrow> [SkippingBecause (Name m) e]
               | Inr a \<Rightarrow> if Kind (Artifact_Header a) = ''Artifact'' then [Skipping (Name m)] else [])
         messages)))"
proof (induction messages arbitrary: artifacts lg)
  case Nil
  then show ?case by simp
next
  case (Cons m ms)
  show ?case
  proof (cases "newArtifact env m")
    case (Inl e)
    then show ?thesis
      by (simp add: collectChildArtifacts_handler_step Cons.IH)
  next
    case (Inr a)
    then show ?thesis
      by (simp add: collectChildArtifacts_handler_step Cons.IH)
  qed
qed

lemma kept_no_generic:
  "\<forall>a \<in> set (List.map_filter
         (\<lambda>m. case newArtifact env m of
                 Inl e \<Rightarrow> None
               | Inr a \<Rightarrow>
                   if Kind (Artifact_Header a) = ''Artifact'' then None
                   else Some (a\<lparr> Artifact_Header :=
                           (Artifact_Header a)\<lparr> ApiVersion := [],
                             Metadata := (Metadata (Artifact_Header a))\<lparr> Parent := [] \<rparr> \<rparr> \<rparr>))
         messages). Kind (Artifact_Header a) \<noteq> ''Artifact''"
  by (auto simp: List.map_filter_def split: sum.splits if_splits)

lemma collectChildArtifacts_no_generic:
  assumes "collectChildArtifacts env lg parent = (Inr artifacts, lg')"
  shows "\<forall>a \<in> set artifacts. Kind (Artifact_Header a) \<noteq> ''Artifact''"
proof -
  obtain messages final where l: "ListArtifacts env parent = (messages, final)"
    by (cases "ListArtifacts env parent")
  have "list_with_handler (collectChildArtifacts_handler env) messages final ([], lg) =
     (final,
      (List.map_filter
         (\<lambda>m. case newArtifact env m of
                 Inl e \<Rightarrow> None
               | Inr a \<Rightarrow>
                   if Kind (Artifact_Header a) = ''Artifact'' then None
                   else Some (a\<lparr> Artifact_Header :=
                           (Artifact_Header a)\<lparr> ApiVersion := [],
                             Metadata := (Metadata (Artifact_Header a))\<lparr> Parent := [] \<rparr> \<rparr> \<rparr>))
         messages,
       lg @ concat (map
         (\<lambda>m. case newArtifact env m of
                 Inl e \<Rightarrow> [SkippingBecause (Name m) e]
               | Inr a \<Rightarrow> if Kind (Artifact_Header a) = ''Artifact'' then [Skipping (Name m)] else [])
         messages)))"
    using collectChildArtifacts_loop [of env messages final "[]" lg] by simp
  with assms have "artifacts = List.map_filter
         (\<lambda>m. case newArtifact env m of
                 Inl e \<Rightarrow> None
               | Inr a \<Rightarrow>
                   if Kind (Artifact_Header a) = ''Artifact'' then None
                   else Some (a\<lparr> Artifact_Header :=
                           (Artifact_Header a)\<lparr> ApiVersion := [],
                             Metadata := (Metadata (Artifact_Header a))\<lparr> Parent := [] \<rparr> \<rparr> \<rparr>))
         messages"
    by (cases final) (simp_all add: collectChildArtifacts_def l)
  then show ?thesis
    using kept_no_generic [of env messages] by simp
qed

lemma newApi_no_generic_child:
  assumes "newApi env lg message nested = (Inr api, lg')"
  shows "\<forall>a \<in> set (Artifacts (Api_Data api)). Kind (Artifact_Header a) \<noteq> ''Artifact''"
proof (cases nested)
  case False
  with assms show ?thesis
    by (auto simp: newApi_def split: sum.splits)
next
  case True
  with assms obtain apiName lg2 artifacts where
    c: "collectChildArtifacts env lg2 apiName = (Inr artifacts, lg')"
    and a: "Artifacts (Api_Data api) = artifacts"
    by (auto simp: newApi_def newApi_children_def split: sum.splits prod.splits option.splits)
  from collectChildArtifacts_no_generic [OF c] a show ?thesis by simp
qed

text \<open>
  Claim C9. Let the listing deliver \<open>messages\<close>. If the listing ends without error,
  \<^verbatim>\<open>collectChildArtifacts\<close> returns, in order, the documents of the messages that decode to
  a kind other than \<^verbatim>\<open>Artifact\<close> (with \<^verbatim>\<open>apiVersion\<close> and \<^verbatim>\<open>metadata.parent\<close> unset), so
  no returned child has the kind \<^verbatim>\<open>Artifact\<close>. Every message that decodes to the kind
  \<^verbatim>\<open>Artifact\<close> is logged as skipped, and so is every message that fails to decode, with
  its error. The document \<^verbatim>\<open>newApi\<close> builds has no child artifact of the kind
  \<^verbatim>\<open>Artifact\<close>.
\<close>

theorem collectChildArtifacts_skips:
  assumes "ListArtifacts env parent = (messages, final)"
  shows "fst (collectChildArtifacts env lg parent) =
           (case final of
              Some e \<Rightarrow> Inl e
            | None \<Rightarrow> Inr (List.map_filter
                (\<lambda>m. case newArtifact env m of
                        Inl e \<Rightarrow> None
                      | Inr a \<Rightarrow>
                          if Kind (Artifact_Header a) = ''Artifact'' then None
                          else Some (a\<lparr> Artifact_Header :=
                                  (Artifact_Header a)\<lparr> ApiVersion := [],
                                    Metadata := (Metadata (Artifact_Header a))\<lparr> Parent := [] \<rparr> \<rparr> \<rparr>))
                messages))
       \<and> (\<forall>artifacts. fst (collectChildArtifacts env lg parent) = Inr artifacts \<longrightarrow>
             (\<forall>a \<in> set artifacts. Kind (Artifact_Header a) \<noteq> ''Artifact''))
       \<and> (\<forall>m \<in> set messages. \<forall>a.
             newArtifact env m = Inr a \<and> Kind (Artifact_Header a) = ''Artifact'' \<longrightarrow>
             Skipping (Name m) \<in> set (snd (collectChildArtifacts env lg parent)))
       \<and> (\<forall>m \<in> set messages. \<forall>e.
             newArtifact env m = Inl e \<longrightarrow>
             SkippingBecause (Name m) e \<in> set (snd (collectChildArtifacts env lg parent)))
       \<and> (\<forall>lg0 message nested api lg1.
             newApi env lg0 message nested = (Inr api, lg1) \<longrightarrow>
             (\<forall>a \<in> set (Artifacts (Api_Data api)). Kind (Artifact_Header a) \<noteq> ''Artifact''))"
proof -
  let ?keep = "\<lambda>m. case newArtifact env m of
                        Inl e \<Rightarrow> None
                      | Inr a \<Rightarrow>
                          if Kind (Artifact_Header a) = ''Artifact'' then None
                          else Some (a\<lparr> Artifact_Header :=
                                  (Artifact_Header a)\<lparr> ApiVersion := [],
                                    Metadata := (Metadata (Artifact_Header a))\<lparr> Parent := [] \<rparr> \<rparr> \<rparr>)"
  let ?log = "\<lambda>m. case newArtifact env m of
                 Inl e \<Rightarrow> [SkippingBecause (Name m) e]
               | Inr a \<Rightarrow> if Kind (Artifact_Header a) = ''Artifact'' then [Skipping (Name m)] else []"
  have loop: "list_with_handler (collectChildArtifacts_handler env) messages final ([], lg) =
                (final, (List.map_filter ?keep messages, lg @ concat (map ?log messages)))"
    using collectChildArtifacts_loop [of env messages final "[]" lg] by simp
  have r: "fst (collectChildArtifacts env lg parent) =
             (case final of Some e \<Rightarrow> Inl e | None \<Rightarrow> Inr (List.map_filter ?keep messages))"
    by (simp add: collectChildArtifacts_def assms loop split: option.splits)
  have l: "snd (collectChildArtifacts env lg parent) = lg @ concat (map ?log messages)"
    by (simp add: collectChildArtifacts_def assms loop split: option.splits)
  have k: "\<forall>a \<in> set (List.map_filter ?keep messages). Kind (Artifact_Header a) \<noteq> ''Artifact''"
    by (auto simp: List.map_filter_def split: sum.splits if_splits)
  have k': "\<forall>artifacts. fst (collectChildArtifacts env lg parent) = Inr artifacts \<longrightarrow>
             (\<forall>a \<in> set artifacts. Kind (Artifact_Header a) \<noteq> ''Artifact'')"
    using k by (auto simp: r split: option.splits)
  have s1: "\<forall>m \<in> set messages. \<forall>a.
             newArtifact env m = Inr a \<and> Kind (Artifact_Header a) = ''Artifact'' \<longrightarrow>
             Skipping (Name m) \<in> set (snd (collectChildArtifacts env lg parent))"
    unfolding l by force
  have s2: "\<forall>m \<in> set messages. \<forall>e.
             newArtifact env m = Inl e \<longrightarrow>
             SkippingBecause (Name m) e \<in> set (snd (collectChildArtifacts env lg parent))"
    unfolding l by force
  have d: "\<forall>lg0 message nested api lg1.
             newApi env lg0 message nested = (Inr api, lg1) \<longrightarrow>
             (\<forall>a \<in> set (Artifacts (Api_Data api)). Kind (Artifact_Header a) \<noteq> ''Artifact'')"
    using newApi_no_generic_child by blast
  from r k' s1 s2 d show ?thesis by blast
qed

text \<open>
  Claim C10. If the recommended version of the API is non-empty and does not parse as a
  version name, or its recommended deployment is non-empty and does not parse as a
  deployment name, \<^verbatim>\<open>ExportAPI\<close> returns an error and no document, nested or not, and
  nothing has been listed or logged.
\<close>

theorem ExportAPI_malformed_recommended:
  assumes "(RecommendedVersion message \<noteq> []
              \<and> (\<exists>e. ParseVersion (names env) (RecommendedVersion message) = Inl e))
           \<or> (RecommendedDeployment message \<noteq> []
              \<and> (\<exists>e. ParseDeployment (names env) (RecommendedDeployment message) = Inl e))"
  shows "\<exists>e. ExportAPI env lg message nested = (Inl e, lg)"
proof (cases "ParseApi (names env) (Api_Name message)")
  case (Inl e)
  then show ?thesis by (simp add: ExportAPI_def newApi_def)
next
  case (Inr apiName)
  show ?thesis
  proof (cases "relativeVersionName (names env) apiName (RecommendedVersion message)")
    case (Inl e)
    with Inr show ?thesis by (simp add: ExportAPI_def newApi_def)
  next
    case v: (Inr recommendedVersion)
    then have "\<not> (RecommendedVersion message \<noteq> []
              \<and> (\<exists>e. ParseVersion (names env) (RecommendedVersion message) = Inl e))"
      by (auto simp: relativeVersionName_def)
    with assms obtain e where
      "RecommendedDeployment message \<noteq> []"
      "ParseDeployment (names env) (RecommendedDeployment message) = Inl e"
      by blast
    then have "relativeDeploymentName (names env) apiName (RecommendedDeployment message) = Inl e"
      by (simp add: relativeDeploymentName_def)
    with Inr v show ?thesis by (simp add: ExportAPI_def newApi_def)
  qed
qed

lemma example_ParseVersion:
  "global_ParseVersion ''projects/p/locations/global/apis/a/versions/v1''
     = Inr \<lparr> Version_ProjectID = ''p'', Version_ApiID = ''a'', VersionID = ''v1'' \<rparr>"
  "global_ParseVersion ''v1'' = Inl (ExternalError ''v1'')"
  by (simp_all add: global_ParseVersion_def valid_id_def)

lemma example_ParseDeployment:
  "global_ParseDeployment ''projects/p/locations/global/apis/b/deployments/d1''
     = Inr \<lparr> Deployment_ProjectID = ''p'', Deployment_ApiID = ''b'', DeploymentID = ''d1'' \<rparr>"
  by (simp add: global_ParseDeployment_def valid_id_def)

lemma example_ParseApi:
  "global_ParseApi ''projects/p/locations/global/apis/a''
     = Inr \<lparr> Api_ProjectID = ''p'', ApiID = ''a'' \<rparr>"
  by (simp add: global_ParseApi_def valid_id_def)

theorem relativeVersionName_relative_witness:
  "relativeVersionName names_global example_api_name
     ''projects/p/locations/global/apis/a/versions/v1'' = Inr ''v1''
   \<and> relativeDeploymentName names_global example_api_name
     ''projects/p/locations/global/apis/b/deployments/d1''
       = Inr ''projects/p/locations/global/apis/b/deployments/d1''
   \<and> relativeVersionName names_global example_api_name [] = Inr []
   \<and> relativeDeploymentName names_global example_api_name [] = Inr []"
proof -
  have hv: "''projects/p/locations/global/apis/a/versions/v1'' \<noteq> []
      \<and> ParseVersion names_global ''projects/p/locations/global/apis/a/versions/v1''
          = Inr \<lparr> Version_ProjectID = ''p'', Version_ApiID = ''a'', VersionID = ''v1'' \<rparr>"
    by (simp add: names_global_def example_ParseVersion)
  have hd: "''projects/p/locations/global/apis/b/deployments/d1'' \<noteq> []
      \<and> ParseDeployment names_global ''projects/p/locations/global/apis/b/deployments/d1''
          = Inr \<lparr> Deployment_ProjectID = ''p'', Deployment_ApiID = ''b'', DeploymentID = ''d1'' \<rparr>"
    by (simp add: names_global_def example_ParseDeployment)
  have sv: "Api_String names_global
              (Version_Api \<lparr> Version_ProjectID = ''p'', Version_ApiID = ''a'', VersionID = ''v1'' \<rparr>)
            = Api_String names_global example_api_name"
    by (simp add: names_global_def global_Api_String_def Version_Api_def example_api_name_def)
  have sd: "Api_String names_global
              (Deployment_Api \<lparr> Deployment_ProjectID = ''p'', Deployment_ApiID = ''b'',
                                DeploymentID = ''d1'' \<rparr>)
            \<noteq> Api_String names_global example_api_name"
    by (simp add: names_global_def global_Api_String_def Deployment_Api_def example_api_name_def)
  from relativeVersionName_relative
    [where N = names_global and apiName = example_api_name
       and version = "''projects/p/locations/global/apis/a/versions/v1''"
       and versionName = "\<lparr> Version_ProjectID = ''p'', Version_ApiID = ''a'', VersionID = ''v1'' \<rparr>"
       and deployment = "''projects/p/locations/global/apis/b/deployments/d1''"
       and deploymentName = "\<lparr> Deployment_ProjectID = ''p'', Deployment_ApiID = ''b'',
                                DeploymentID = ''d1'' \<rparr>"]
    hv hd
  show ?thesis
    by (simp add: sv sd)
qed

lemma example_ListArtifacts:
  "ListArtifacts example_patch_env example_api_name =
     ([example_message ''l'' ''Lifecycle'', example_message ''g'' ''Artifact'',
       example_message ''b'' ''broken''], None)"
  by (simp add: example_patch_env_def)

lemma example_newArtifact_simps:
  "newArtifact example_patch_env (example_message ''l'' ''Lifecycle'') =
     Inr \<lparr> Artifact_Header =
         \<lparr> ApiVersion = RegistryV1, Kind = ''Lifecycle'',
           Metadata = \<lparr> Metadata_Name = ''projects/p/locations/global/apis/a/artifacts/l'',
                        Parent = ''apis/a'', Labels = Map.empty, Annotations = Map.empty \<rparr> \<rparr>,
       Artifact_Data = ''x'' \<rparr>"
  "newArtifact example_patch_env (example_message ''g'' ''Artifact'') =
     Inr \<lparr> Artifact_Header =
         \<lparr> ApiVersion = RegistryV1, Kind = ''Artifact'',
           Metadata = \<lparr> Metadata_Name = ''projects/p/locations/global/apis/a/artifacts/g'',
                        Parent = ''apis/a'', Labels = Map.empty, Annotations = Map.empty \<rparr> \<rparr>,
       Artifact_Data = ''x'' \<rparr>"
  "newArtifact example_patch_env (example_message ''b'' ''broken'') =
     Inl (ExternalError ''cannot decode'')"
  by (simp_all add: example_patch_env_def example_newArtifact_def example_message_def)

theorem collectChildArtifacts_skips_witness:
  "ListArtifacts example_patch_env example_api_name =
     ([example_message ''l'' ''Lifecycle'', example_message ''g'' ''Artifact'',
       example_message ''b'' ''broken''], None)
   \<and> fst (collectChildArtifacts example_patch_env [] example_api_name)
       = Inr [example_lifecycle_child]
   \<and> Skipping ''projects/p/locations/global/apis/a/artifacts/g''
       \<in> set (snd (collectChildArtifacts example_patch_env [] example_api_name))
   \<and> SkippingBecause ''projects/p/locations/global/apis/a/artifacts/b''
         (ExternalError ''cannot decode'')
       \<in> set (snd (collectChildArtifacts example_patch_env [] example_api_name))"
proof -
  have n: "Name (example_message ''g'' ''Artifact'')
             = ''projects/p/locations/global/apis/a/artifacts/g''"
     "Name (example_message ''b'' ''broken'')
             = ''projects/p/locations/global/apis/a/artifacts/b''"
    by (simp_all add: example_message_def)
  from collectChildArtifacts_skips [OF example_ListArtifacts, of "[]"]
  show ?thesis
    by (simp add: example_ListArtifacts example_newArtifact_simps n
        example_lifecycle_child_def)
qed

theorem ExportAPI_malformed_recommended_witness:
  "RecommendedVersion (example_rpc_api ''v1'' []) \<noteq> []
   \<and> ParseVersion (names example_patch_env) (RecommendedVersion (example_rpc_api ''v1'' []))
       = Inl (ExternalError ''v1'')
   \<and> ExportAPI example_patch_env [] (example_rpc_api ''v1'' []) True
       = (Inl (ExternalError ''v1''), [])"
proof -
  have h: "RecommendedVersion (example_rpc_api ''v1'' []) \<noteq> []
   \<and> ParseVersion (names example_patch_env) (RecommendedVersion (example_rpc_api ''v1'' []))
       = Inl (ExternalError ''v1'')"
    by (simp add: example_rpc_api_def example_patch_env_def names_global_def example_ParseVersion)
  then have a: "(RecommendedVersion (example_rpc_api ''v1'' []) \<noteq> []
              \<and> (\<exists>e. ParseVersion (names example_patch_env)
                        (RecommendedVersion (example_rpc_api ''v1'' [])) = Inl e))
           \<or> (RecommendedDeployment (example_rpc_api ''v1'' []) \<noteq> []
              \<and> (\<exists>e. ParseDeployment (names example_patch_env)
                        (RecommendedDeployment (example_rpc_api ''v1'' [])) = Inl e))"
    by blast
  have c: "ExportAPI example_patch_env [] (example_rpc_api ''v1'' []) True
       = (Inl (ExternalError ''v1''), [])"
    by (simp add: ExportAPI_def newApi_def example_rpc_api_def example_patch_env_def
        names_global_def example_ParseApi relativeVersionName_def example_ParseVersion)
  from ExportAPI_malformed_recommended [OF a, of "[]" True] h c
  show ?thesis by simp
qed

lemma example_export_ok:
  "fst (ExportAPI example_patch_env []
     (example_rpc_api ''projects/p/locations/global/apis/a/versions/v1'' []) True)
   = Inr (''a'', \<lparr> ApiVersion = RegistryV1, Kind = ''API'',
                   Metadata = \<lparr> Metadata_Name = ''a'', Parent = [], Labels = Map.empty,
                                Annotations = Map.empty \<rparr> \<rparr>)"
  by (simp add: ExportAPI_def newApi_def example_rpc_api_def example_patch_env_def
        names_global_def example_ParseApi relativeVersionName_def example_ParseVersion
        relativeDeploymentName_def global_Api_String_def Version_Api_def newApi_children_def
        collectChildArtifacts_def collectChildArtifacts_handler_step example_newArtifact_def
        example_message_def split: prod.splits)

end
